theory Spec2Isabelle
  imports Complex_Main "HOL-Library.Sublist" "HOL-Library.Product_Lexorder"
begin

chapter \<open>The model\<close>

section \<open>Python values and exceptions\<close>

text \<open>
  The development embeds the three modules of \<^verbatim>\<open>conagua_datos\<close>:
  \<^verbatim>\<open>extract/downloader.py\<close> (class \<^verbatim>\<open>DownloadCONAGUA\<close>),
  \<^verbatim>\<open>transform/processor.py\<close> (class \<^verbatim>\<open>DataProcessor\<close>) and
  \<^verbatim>\<open>transform/filter_data.py\<close> (\<^verbatim>\<open>filtrar_datos\<close>).

  A Python \<^verbatim>\<open>str\<close> is a \<^typ>\<open>string\<close>; one \<^typ>\<open>char\<close> stands for one code point
  below 256 (Latin-1), which covers the Spanish text the program handles. Python's
  unbounded \<^verbatim>\<open>int\<close> is \<^typ>\<open>int\<close>. A method whose Python name starts with an
  underscore keeps its name without it.
\<close>

datatype timestamp = NaT | Stamp int int int

datatype obj =
    Str string
  | IntV int
  | Flt rat
  | NaN
  | PNone
  | Tstamp timestamp

datatype exn =
    ValueError string
  | KeyError obj
  | IndexError
  | AttributeError string
  | HTTPError string
  | BadZipFile
  | InvalidIndexError
  | PyException string
  | NotModelled string

text \<open>
  \<^term>\<open>NotModelled\<close> is not a Python exception: it marks the few places (named where they
  occur) at which pandas continues in a way this model does not follow. No property of
  the outcome is stated for a run that ends there.
\<close>

subsection \<open>\<^verbatim>\<open>str\<close> methods\<close>

definition digit_char :: "nat \<Rightarrow> char" where
  "digit_char d = ''0123456789'' ! d"

fun str_nat :: "nat \<Rightarrow> string" where
  "str_nat n = (if n < 10 then [digit_char n] else str_nat (n div 10) @ [digit_char (n mod 10)])"

declare str_nat.simps [simp del]

definition str_int :: "int \<Rightarrow> string" where
  "str_int i = (if i < 0 then CHR ''-'' # str_nat (nat (- i)) else str_nat (nat i))"

text \<open>\<^verbatim>\<open>s.split(sep)\<close> for a one-character separator: never empty, one more part than
  separators.\<close>

fun py_split :: "char \<Rightarrow> string \<Rightarrow> string list" where
  "py_split sep [] = [[]]"
| "py_split sep (c # cs) =
     (if c = sep then [] # py_split sep cs
      else (case py_split sep cs of
              [] \<Rightarrow> [[c]]
            | p # ps \<Rightarrow> (c # p) # ps))"

definition endswith_slash :: "string \<Rightarrow> bool" where
  "endswith_slash s = (s \<noteq> [] \<and> last s = CHR ''/'')"

text \<open>\<^verbatim>\<open>xs[i]\<close> for \<^verbatim>\<open>i >= 0\<close>: \<^verbatim>\<open>IndexError\<close> out of range.\<close>

definition py_nth :: "'a list \<Rightarrow> nat \<Rightarrow> exn + 'a" where
  "py_nth xs i = (if i < length xs then Inr (xs ! i) else Inl IndexError)"

subsection \<open>Case, whitespace and transliteration\<close>

text \<open>
  \<^verbatim>\<open>str.lower\<close> on code points below 256: the ASCII capitals and the Latin-1 capitals
  (\<^verbatim>\<open>U+00C0\<close> to \<^verbatim>\<open>U+00DE\<close> without the multiplication sign) move up by 32.
\<close>

definition lower_char :: "char \<Rightarrow> char" where
  "lower_char c =
     (let n = (of_char c :: nat)
      in if (65 \<le> n \<and> n \<le> 90) \<or> (192 \<le> n \<and> n \<le> 222 \<and> n \<noteq> 215)
         then char_of (n + 32) else c)"

definition py_lower :: "string \<Rightarrow> string" where
  "py_lower s = map lower_char s"

text \<open>\<^verbatim>\<open>str.strip()\<close>: the white space of \<^verbatim>\<open>str.isspace\<close> below 256 is removed at both
  ends.\<close>

definition is_space :: "char \<Rightarrow> bool" where
  "is_space c =
     (let n = (of_char c :: nat)
      in (9 \<le> n \<and> n \<le> 13) \<or> (28 \<le> n \<and> n \<le> 32) \<or> n = 133 \<or> n = 160)"

definition py_strip :: "string \<Rightarrow> string" where
  "py_strip s = rev (dropWhile is_space (rev (dropWhile is_space s)))"

text \<open>
  The libraries the program calls on text and cells. \<^verbatim>\<open>unidecode\<close> leaves ASCII
  characters alone and replaces every other character by the entry of its table, here
  \<open>unidecode_char\<close>; \<open>str_other\<close> is \<^verbatim>\<open>str\<close> on floats and timestamps.
\<close>

record pylib =
  unidecode_char :: "char \<Rightarrow> string"
  str_other :: "obj \<Rightarrow> string"

definition unidecode :: "pylib \<Rightarrow> string \<Rightarrow> string" where
  "unidecode L s =
     concat (map (\<lambda>c. if (of_char c :: nat) < 128 then [c] else unidecode_char L c) s)"

definition py_str :: "pylib \<Rightarrow> obj \<Rightarrow> string" where
  "py_str L v =
     (case v of
        Str s \<Rightarrow> s
      | IntV i \<Rightarrow> str_int i
      | NaN \<Rightarrow> ''nan''
      | PNone \<Rightarrow> ''None''
      | _ \<Rightarrow> str_other L v)"

section \<open>Tables (\<^verbatim>\<open>pandas.DataFrame\<close>)\<close>

text \<open>
  A table has column labels, a row index and its cells, row by row; in a well-formed
  table every row has one cell per column label and there is one row per index entry.
  Labels may repeat, as in pandas. A \<^verbatim>\<open>DatetimeIndex\<close> is kept apart from every other
  kind of index (\<^verbatim>\<open>RangeIndex\<close> included), because the program asks which one it has.
\<close>

datatype index = Index "obj list" | DatetimeIndex "timestamp list"

record frame =
  columns :: "obj list"
  index :: index
  rows :: "obj list list"

definition index_labels :: "index \<Rightarrow> obj list" where
  "index_labels ix = (case ix of Index ls \<Rightarrow> ls | DatetimeIndex ts \<Rightarrow> map Tstamp ts)"

definition range_index :: "nat \<Rightarrow> index" where
  "range_index n = Index (map (\<lambda>i. IntV (int i)) [0..<n])"

definition wf_frame :: "frame \<Rightarrow> bool" where
  "wf_frame df =
     (length (rows df) = length (index_labels (index df)) \<and>
      list_all (\<lambda>r. length r = length (columns df)) (rows df))"

subsection \<open>Columns of a table\<close>

text \<open>The cells of a row that stand under the label \<open>k\<close>.\<close>

definition cells_at :: "obj list \<Rightarrow> obj \<Rightarrow> obj list \<Rightarrow> obj list" where
  "cells_at cols k r = map snd (filter (\<lambda>lv. fst lv = k) (zip cols r))"

text \<open>A \<^verbatim>\<open>Series\<close>: its index and its values.\<close>

type_synonym series = "index \<times> obj list"

text \<open>
  \<^verbatim>\<open>df[k]\<close> for a single label: \<^verbatim>\<open>KeyError\<close> when no column has the label. A label
  that several columns carry selects a table, not a series; the program never expects
  that, and the model stops there.
\<close>

definition getitem :: "frame \<Rightarrow> obj \<Rightarrow> exn + series" where
  "getitem df k =
     (if k \<notin> set (columns df) then Inl (KeyError k)
      else if 1 < count_list (columns df) k
        then Inl (NotModelled ''a repeated label selects several columns'')
      else Inr (index df, concat (map (cells_at (columns df) k) (rows df))))"

text \<open>
  \<^verbatim>\<open>df[k] = series\<close>. A table without rows first takes the index of a non-empty series
  (its own columns filled with NaN). The series is aligned on the row labels: taken as it
  is when the two indexes are equal, otherwise looked up label by label, NaN where the
  label is missing, and refused when its own labels repeat. The column replaces the one
  labelled \<open>k\<close> or is appended as the last column.
\<close>

definition ensure_valid_index :: "frame \<Rightarrow> series \<Rightarrow> frame" where
  "ensure_valid_index df s =
     (if index_labels (index df) = [] \<and> snd s \<noteq> []
      then df\<lparr>index := fst s, rows := map (\<lambda>v. map (\<lambda>c. NaN) (columns df)) (snd s)\<rparr>
      else df)"

definition reindex_for_setitem :: "index \<Rightarrow> series \<Rightarrow> exn + obj list" where
  "reindex_for_setitem ix s =
     (if index_labels (fst s) = index_labels ix then Inr (snd s)
      else if \<not> distinct (index_labels (fst s))
        then Inl (ValueError ''cannot reindex on an axis with duplicate labels'')
      else Inr (map (\<lambda>l. case map_of (zip (index_labels (fst s)) (snd s)) l of
                            None \<Rightarrow> NaN | Some v \<Rightarrow> v)
                 (index_labels ix)))"

definition set_column :: "frame \<Rightarrow> obj \<Rightarrow> obj list \<Rightarrow> frame" where
  "set_column df k vs =
     (if k \<in> set (columns df)
      then df\<lparr>rows := map (\<lambda>rv. map (\<lambda>lx. if fst lx = k then snd rv else snd lx)
                                  (zip (columns df) (fst rv)))
                         (zip (rows df) vs)\<rparr>
      else df\<lparr>columns := columns df @ [k],
              rows := map (\<lambda>rv. fst rv @ [snd rv]) (zip (rows df) vs)\<rparr>)"

definition setitem :: "frame \<Rightarrow> obj \<Rightarrow> series \<Rightarrow> exn + frame" where
  "setitem df k s =
     (if 1 < count_list (columns df) k
        then Inl (NotModelled ''assignment to a repeated column label'')
      else (let df' = ensure_valid_index df s
            in case reindex_for_setitem (index df') s of
                 Inl e \<Rightarrow> Inl e
               | Inr vs \<Rightarrow> Inr (set_column df' k vs)))"

text \<open>\<^verbatim>\<open>df[k] = v\<close> for a scalar: every row gets the value, in every column labelled
  \<open>k\<close>.\<close>

definition setitem_scalar :: "frame \<Rightarrow> obj \<Rightarrow> obj \<Rightarrow> frame" where
  "setitem_scalar df k v = set_column df k (map (\<lambda>r. v) (rows df))"

section \<open>Paths (\<^verbatim>\<open>pathlib\<close>, POSIX flavour)\<close>

text \<open>
  A pure path is its anchor (absolute or not) and its components. Parsing a string
  splits at the separator and drops empty and \<^verbatim>\<open>.\<close> components, as \<^verbatim>\<open>pathlib\<close> does;
  \<^verbatim>\<open>..\<close> components are kept. (\<^verbatim>\<open>pathlib\<close> tells a root of exactly two slashes from
  the root \<^verbatim>\<open>/\<close>; both are absolute here.)
\<close>

datatype path = Path (is_absolute: bool) (parts: "string list")

definition path_of :: "string \<Rightarrow> path" where
  "path_of s =
     Path (s \<noteq> [] \<and> hd s = CHR ''/'')
       (filter (\<lambda>c. c \<noteq> [] \<and> c \<noteq> ''.'') (py_split (CHR ''/'') s))"

text \<open>\<^verbatim>\<open>p / s\<close>: an absolute right operand replaces the left one.\<close>

definition joinpath :: "path \<Rightarrow> string \<Rightarrow> path" where
  "joinpath p s =
     (let q = path_of s
      in if is_absolute q then q else Path (is_absolute p) (parts p @ parts q))"

definition parent :: "path \<Rightarrow> path" where
  "parent p = Path (is_absolute p) (butlast (parts p))"




section \<open>Effects\<close>

text \<open>
  What a run does to the outside is the list of its events, in order. A \<^term>\<open>Mkdir\<close> is
  \<^verbatim>\<open>mkdir(parents=True, exist_ok=True)\<close>. File-system calls are taken to succeed.
\<close>

datatype event =
    ReadPdf string
  | HttpGet string
  | FetchPronostic string
  | Mkdir path
  | WriteFile path string
  | ToExcel path frame
  | Unlink path

section \<open>The retrieval loop (\<^verbatim>\<open>get_latest_valid_pronostic\<close>)\<close>

definition month_names :: "(int \<times> string) list" where
  "month_names =
     [(1, ''Enero''), (2, ''Febrero''), (3, ''Marzo''), (4, ''Abril''),
      (5, ''Mayo''), (6, ''Junio''), (7, ''Julio''), (8, ''Agosto''),
      (9, ''Septiembre''), (10, ''Octubre''), (11, ''Noviembre''), (12, ''Diciembre'')]"

definition month_prefix :: "(int \<times> string) list" where
  "month_prefix =
     [(1, ''01-EFM''), (2, ''02-FMA''), (3, ''03-MAM''),
      (4, ''04-AMJ''), (5, ''05-MJJ''), (6, ''06-JJA''),
      (7, ''07-JAS''), (8, ''08-ASO''), (9, ''09-SON''),
      (10, ''10-OND''), (11, ''11-NDE''), (12, ''12-DEF'')]"

text \<open>An f-string field holding the result of \<^verbatim>\<open>dict.get\<close>: a missing key prints as
  \<^verbatim>\<open>None\<close>.\<close>

definition fmt_get :: "string option \<Rightarrow> string" where
  "fmt_get v = (case v of None \<Rightarrow> ''None'' | Some s \<Rightarrow> s)"

definition generate_pronostic_url :: "string \<Rightarrow> int \<Rightarrow> int \<Rightarrow> string \<Rightarrow> string" where
  "generate_pronostic_url pronostic_url year month tipo =
     (let month_code = map_of month_prefix month;
          month_name = map_of month_names month
      in pronostic_url @ fmt_get month_code @ ''-Pronostico-de-'' @ fmt_get month_name
           @ ''-'' @ str_int year @ ''-'' @ tipo @ ''.zip'')"

text \<open>The \<^verbatim>\<open>except\<close> branch of the loop: \<^verbatim>\<open>month -= 1\<close>, and on \<^verbatim>\<open>month < 1\<close> the
  month becomes 12 and the year is decremented.\<close>

definition step_back :: "int \<times> int \<Rightarrow> int \<times> int" where
  "step_back p =
     (let year = fst p; month = snd p - 1
      in if month < 1 then (year - 1, 12) else (year, month))"

text \<open>Months since year 0, the linear time of a period.\<close>

definition month_index :: "int \<times> int \<Rightarrow> int" where
  "month_index p = 12 * fst p + snd p"

text \<open>
  The loop. \<^verbatim>\<open>download_extract_pronostic\<close> (network transfer, archive scan and CSV
  parsing, all collaborators outside the program) is the parameter \<open>dl\<close>: it returns the
  forecast dataset or the exception it raised. The \<^verbatim>\<open>except\<close> clause lists
  \<^verbatim>\<open>Exception\<close>, so every exception is caught. The second component of the result is
  the list of URLs tried, one per attempt, in order.
\<close>

function retrieval_loop ::
  "(string \<Rightarrow> exn + 'd) \<Rightarrow> string \<Rightarrow> string \<Rightarrow> int \<times> int \<Rightarrow> nat \<Rightarrow> nat \<Rightarrow> string list
     \<Rightarrow> (exn + 'd) \<times> string list" where
  "retrieval_loop dl pronostic_url tipo period attempts max_attempts tried =
     (if attempts < max_attempts then
        (let url = generate_pronostic_url pronostic_url (fst period) (snd period) tipo
         in case dl url of
              Inr dfs \<Rightarrow> (Inr dfs, tried @ [url])
            | Inl e \<Rightarrow>
                retrieval_loop dl pronostic_url tipo (step_back period)
                  (attempts + 1) max_attempts (tried @ [url]))
      else (Inl (PyException ''No valid pronostic file found in the last 2 months.''), tried))"
  by pat_completeness auto
termination
  by (relation "measure (\<lambda>(dl, u, t, p, attempts, max_attempts, tried). max_attempts - attempts)")
    auto

declare retrieval_loop.simps [simp del]

definition max_attempts :: nat where
  "max_attempts = 2"

definition get_latest_valid_pronostic ::
  "(string \<Rightarrow> exn + 'd) \<Rightarrow> string \<Rightarrow> int \<times> int \<Rightarrow> string \<Rightarrow> (exn + 'd) \<times> string list" where
  "get_latest_valid_pronostic dl pronostic_url now tipo =
     retrieval_loop dl pronostic_url tipo now 0 max_attempts []"

section \<open>Archive extraction (\<^verbatim>\<open>_extract_zip_file\<close>)\<close>

text \<open>
  \<^verbatim>\<open>os.path.commonprefix\<close> of the standard library: the longest string that is a
  prefix of every name of the list, character by character; the empty string for the
  empty list.
\<close>

fun common2 :: "'a list \<Rightarrow> 'a list \<Rightarrow> 'a list" where
  "common2 (x # xs) (y # ys) = (if x = y then x # common2 xs ys else [])"
| "common2 _ _ = []"

definition commonprefix :: "'a list list \<Rightarrow> 'a list" where
  "commonprefix m = (case m of [] \<Rightarrow> [] | n # ns \<Rightarrow> foldl common2 n ns)"

text \<open>
  The prefix the extraction strips: the common prefix of all entry names; when it is
  non-empty and does not end with the separator, its first \<^verbatim>\<open>/\<close>-separated part
  followed by the separator (\<^verbatim>\<open>common_prefix.split('/')[0] + '/'\<close>).
\<close>

definition common_prefix :: "string list \<Rightarrow> string" where
  "common_prefix all_names =
     (let cp = commonprefix all_names
      in if cp \<noteq> [] \<and> \<not> endswith_slash cp
         then hd (py_split (CHR ''/'') cp) @ ''/''
         else cp)"

text \<open>The name an entry is extracted under: the prefix is removed from a name that starts
  with it.\<close>

definition member_name :: "string \<Rightarrow> string \<Rightarrow> string" where
  "member_name cp filename =
     (if cp \<noteq> [] \<and> prefix cp filename then drop (length cp) filename else filename)"

text \<open>
  An archive is the list of its entries (\<^verbatim>\<open>infolist()\<close>): file name and content.
  \<^verbatim>\<open>namelist()\<close> is the list of the file names; an entry is a directory marker when
  its name ends with the separator.
\<close>

type_synonym zip_member = "string \<times> string"

definition namelist :: "zip_member list \<Rightarrow> string list" where
  "namelist zip_ref = map fst zip_ref"

definition is_dir :: "zip_member \<Rightarrow> bool" where
  "is_dir member = endswith_slash (fst member)"

text \<open>The body of the loop over the entries: the directories made and the file written
  for one entry.\<close>

definition extract_member :: "path \<Rightarrow> string \<Rightarrow> zip_member \<Rightarrow> event list" where
  "extract_member dest_dir cp member =
     (let target_path = joinpath dest_dir (member_name cp (fst member))
      in if is_dir member then [Mkdir target_path]
         else [Mkdir (parent target_path), WriteFile target_path (snd member)])"

definition extract_zip_file :: "zip_member list \<Rightarrow> path \<Rightarrow> event list" where
  "extract_zip_file zip_ref dest_dir =
     (let all_names = namelist zip_ref;
          cp = common_prefix all_names
      in concat (map (extract_member dest_dir cp) zip_ref))"



text \<open>
  The rule of the specification, in its words: the common prefix, truncated back to the
  last separator when it does not end at one (empty when it holds no separator).
\<close>

definition truncate_to_last_separator :: "string \<Rightarrow> string" where
  "truncate_to_last_separator cp = rev (dropWhile (\<lambda>c. c \<noteq> CHR ''/'') (rev cp))"

definition spec_member_name :: "string list \<Rightarrow> string \<Rightarrow> string" where
  "spec_member_name all_names filename =
     drop (length (truncate_to_last_separator (commonprefix all_names))) filename"


section \<open>The forecast merge (\<^verbatim>\<open>add_pronostico\<close>)\<close>

definition month_map :: "(string \<times> string) list" where
  "month_map =
     [(''enero'', ''ene''), (''febrero'', ''feb''), (''marzo'', ''mar''), (''abril'', ''abr''),
      (''mayo'', ''may''), (''junio'', ''jun''), (''julio'', ''jul''), (''agosto'', ''ago''),
      (''septiembre'', ''sep''), (''octubre'', ''oct''), (''noviembre'', ''nov''),
      (''diciembre'', ''dic'')]"

text \<open>\<^verbatim>\<open>month_map.get(name)\<close>: the abbreviation, or \<^verbatim>\<open>None\<close>.\<close>

definition month_map_get :: "string \<Rightarrow> obj" where
  "month_map_get name = (case map_of month_map name of None \<Rightarrow> PNone | Some a \<Rightarrow> Str a)"

text \<open>
  The body of the loop over the keys of the forecast dataset, on the table of the latest
  year: the month name is the third \<^verbatim>\<open>_\<close>-separated part of the key, the column written is
  what \<^verbatim>\<open>month_map.get\<close> returns for it, and the values are the column
  \<^verbatim>\<open>pronostico (mm)\<close> of the forecast table of that key.
\<close>

definition merge_entry :: "frame \<Rightarrow> string \<times> frame \<Rightarrow> exn + frame" where
  "merge_entry target entry =
     (case py_nth (py_split (CHR ''_'') (fst entry)) 2 of
        Inl e \<Rightarrow> Inl e
      | Inr name \<Rightarrow>
          (let key_month = month_map_get name
           in case getitem (snd entry) (Str ''pronostico (mm)'') of
                Inl e \<Rightarrow> Inl e
              | Inr s \<Rightarrow> setitem target key_month s))"

fun merge_all :: "frame \<Rightarrow> (string \<times> frame) list \<Rightarrow> exn + frame" where
  "merge_all target [] = Inr target"
| "merge_all target (entry # entries) =
     (case merge_entry target entry of
        Inl e \<Rightarrow> Inl e
      | Inr target' \<Rightarrow> merge_all target' entries)"

text \<open>
  A dict is the list of its items in insertion order, with distinct keys.
  \<^verbatim>\<open>add_pronostico\<close> takes the last key of \<^verbatim>\<open>new_info_dict\<close>, runs the retrieval loop
  from the current period and merges every entry of the dataset into the table of that
  key. The URLs tried come back beside the result.
\<close>

definition add_pronostico ::
  "(string \<Rightarrow> exn + (string \<times> frame) list) \<Rightarrow> string \<Rightarrow> int \<times> int \<Rightarrow> (int \<times> frame) list
     \<Rightarrow> (exn + (int \<times> frame) list) \<times> string list" where
  "add_pronostico dl pronostic_url now new_info_dict =
     (if new_info_dict = [] then (Inl IndexError, [])
      else
        (let year_df = fst (last new_info_dict)
         in case get_latest_valid_pronostic dl pronostic_url now ''Lluvia'' of
              (Inl e, tried) \<Rightarrow> (Inl e, tried)
            | (Inr pronostic_dfs, tried) \<Rightarrow>
                (case map_of new_info_dict year_df of
                   None \<Rightarrow> (Inl (KeyError (IntV year_df)), tried)
                 | Some target \<Rightarrow>
                     (case merge_all target pronostic_dfs of
                        Inl e \<Rightarrow> (Inl e, tried)
                      | Inr target' \<Rightarrow>
                          (Inr (map (\<lambda>item. if fst item = year_df then (year_df, target')
                                             else item) new_info_dict),
                           tried)))))"

section \<open>The download run (\<^verbatim>\<open>download_conagua\<close>)\<close>

text \<open>
  The configuration file of the downloader (its four URLs, taken as loaded) and the world
  the run reads:
  the clock, the working directory, the PDF table reader, the HTTP transfer (the body on
  success, the exception of \<^verbatim>\<open>requests.get\<close> or \<^verbatim>\<open>raise_for_status\<close> otherwise),
  the archive reader on a body (\<^verbatim>\<open>BadZipFile\<close> or the entries), and
  \<^verbatim>\<open>download_extract_pronostic\<close> as a whole.
\<close>

record dl_config =
  rain_url :: string
  temp_url :: string
  new_info_url :: string
  pronostic_url :: string

record world =
  datetime_now :: "int \<times> int"
  path_cwd :: path
  read_pdf :: "string \<Rightarrow> exn + frame list"
  requests_get :: "string \<Rightarrow> exn + string"
  zip_infolist :: "string \<Rightarrow> exn + zip_member list"
  download_extract_pronostic :: "string \<Rightarrow> exn + (string \<times> frame) list"

text \<open>An effectful step: its result or exception, and the events it caused. A step after
  an exception does not run.\<close>

type_synonym 'a io = "(exn + 'a) \<times> event list"

definition io_bind :: "'a io \<Rightarrow> ('a \<Rightarrow> 'b io) \<Rightarrow> 'b io" where
  "io_bind m f =
     (case fst m of
        Inl e \<Rightarrow> (Inl e, snd m)
      | Inr a \<Rightarrow> (fst (f a), snd m @ snd (f a)))"

definition io_return :: "'a \<Rightarrow> 'a io" where
  "io_return a = (Inr a, [])"

text \<open>\<^verbatim>\<open>read_pdf_table\<close>: the first table of the PDF, its column names stripped and
  lower-cased; \<^verbatim>\<open>strip\<close> is a method of strings only.\<close>

fun strip_lower_all :: "obj list \<Rightarrow> exn + obj list" where
  "strip_lower_all [] = Inr []"
| "strip_lower_all (Str s # cols) =
     (case strip_lower_all cols of
        Inl e \<Rightarrow> Inl e
      | Inr cols' \<Rightarrow> Inr (Str (py_lower (py_strip s)) # cols'))"
| "strip_lower_all (c # cols) = Inl (AttributeError ''strip'')"

definition read_pdf_table :: "world \<Rightarrow> string \<Rightarrow> frame io" where
  "read_pdf_table w url =
     (case read_pdf w url of
        Inl e \<Rightarrow> (Inl e, [ReadPdf url])
      | Inr tables \<Rightarrow>
          (case tables of
             [] \<Rightarrow> (Inl IndexError, [ReadPdf url])
           | df # _ \<Rightarrow>
               (case strip_lower_all (columns df) of
                  Inl e \<Rightarrow> (Inl e, [ReadPdf url])
                | Inr cols \<Rightarrow> (Inr (df\<lparr>columns := cols\<rparr>), [ReadPdf url]))))"

record datatype_config =
  zip_url :: string
  pdf_folder :: string
  default_folder :: string
  filename :: string

definition get_datatype_config :: "dl_config \<Rightarrow> string \<Rightarrow> exn + datatype_config" where
  "get_datatype_config cfg data_type =
     (let dt = py_lower data_type
      in if dt \<in> {''precipitacion'', ''rain'', ''lluvia''} then
           Inr \<lparr>zip_url = rain_url cfg, pdf_folder = ''PREC'',
                default_folder = ''Precipitacion'', filename = ''Precip.xlsx''\<rparr>
         else if dt \<in> {''temperatura'', ''temp'', ''temperature''} then
           Inr \<lparr>zip_url = temp_url cfg, pdf_folder = ''TMED'',
                default_folder = ''Temperatura'', filename = ''Tmed.xlsx''\<rparr>
         else Inl (ValueError (''Invalid data type: '' @ data_type)))"

text \<open>The dict comprehension over \<^verbatim>\<open>range(2024, latest_year + 1)\<close>: one PDF per year, in
  order, stopping at the first exception.\<close>

fun read_years :: "world \<Rightarrow> string \<Rightarrow> int list \<Rightarrow> (int \<times> frame) list io" where
  "read_years w base [] = io_return []"
| "read_years w base (year # years) =
     io_bind (read_pdf_table w (base @ ''/'' @ str_int year @ ''.pdf'')) (\<lambda>df.
     io_bind (read_years w base years) (\<lambda>rest.
     io_return ((year, df) # rest)))"

definition get_datatype_values ::
  "world \<Rightarrow> dl_config \<Rightarrow> string \<Rightarrow> (string \<times> (int \<times> frame) list \<times> string \<times> string) io" where
  "get_datatype_values w cfg data_type =
     (let latest_year = fst (datetime_now w)
      in io_bind (get_datatype_config cfg data_type, []) (\<lambda>config.
         io_bind (read_years w (new_info_url cfg @ pdf_folder config) [2024..latest_year])
           (\<lambda>new_info_dict.
         io_return (zip_url config, new_info_dict, default_folder config, filename config))))"

definition set_destination_directory :: "world \<Rightarrow> string option \<Rightarrow> string \<Rightarrow> (path \<times> path) io" where
  "set_destination_directory w file_location folder =
     (let dest_dir = (case file_location of
                        None \<Rightarrow> joinpath (path_cwd w) folder
                      | Some loc \<Rightarrow> path_of loc);
          zip_file_path = joinpath dest_dir ''temp.zip''
      in (Inr (dest_dir, zip_file_path), [Mkdir dest_dir]))"

text \<open>\<^verbatim>\<open>_download_zip_file\<close> returns nothing; the body it wrote to the temporary file is
  handed on here, since the extraction reads that file next.\<close>

definition download_zip_file :: "world \<Rightarrow> string \<Rightarrow> path \<Rightarrow> string io" where
  "download_zip_file w url zip_file_path =
     (case requests_get w url of
        Inl e \<Rightarrow> (Inl e, [HttpGet url])
      | Inr body \<Rightarrow> (Inr body, [HttpGet url, WriteFile zip_file_path body]))"

definition extract_zip_file_io :: "world \<Rightarrow> string \<Rightarrow> path \<Rightarrow> unit io" where
  "extract_zip_file_io w body dest_dir =
     (case zip_infolist w body of
        Inl e \<Rightarrow> (Inl e, [])
      | Inr zip_ref \<Rightarrow> (Inr (), extract_zip_file zip_ref dest_dir))"

definition add_pronostico_io ::
  "world \<Rightarrow> dl_config \<Rightarrow> (int \<times> frame) list \<Rightarrow> (int \<times> frame) list io" where
  "add_pronostico_io w cfg new_info_dict =
     (let r = add_pronostico (download_extract_pronostic w) (pronostic_url cfg) (datetime_now w)
                new_info_dict
      in (fst r, map FetchPronostic (snd r)))"

definition save_new_info :: "(int \<times> frame) list \<Rightarrow> path \<Rightarrow> string \<Rightarrow> unit io" where
  "save_new_info new_info_dict directory fname =
     (Inr (), map (\<lambda>item. ToExcel (joinpath directory (str_int (fst item) @ fname)) (snd item))
                new_info_dict)"

text \<open>The run; its result is the directory it stores in \<^verbatim>\<open>self.directory\<close>.\<close>

definition download_conagua ::
  "world \<Rightarrow> dl_config \<Rightarrow> string option \<Rightarrow> string \<Rightarrow> bool \<Rightarrow> path io" where
  "download_conagua w cfg file_location data_type include_pronostico =
     io_bind (get_datatype_values w cfg data_type) (\<lambda>dtype_values.
       (let url = fst dtype_values;
            new_info_dict = fst (snd dtype_values);
            folder = fst (snd (snd dtype_values));
            fname = snd (snd (snd dtype_values))
        in io_bind (set_destination_directory w file_location folder) (\<lambda>dirs.
           io_bind (download_zip_file w url (snd dirs)) (\<lambda>body.
           io_bind (extract_zip_file_io w body (fst dirs)) (\<lambda>u.
           io_bind (if include_pronostico \<and> folder = ''Precipitacion''
                    then add_pronostico_io w cfg new_info_dict
                    else io_return new_info_dict) (\<lambda>new_info_dict.
           io_bind (save_new_info new_info_dict (fst dirs) fname) (\<lambda>u.
           io_bind (Inr (), [Unlink (snd dirs)]) (\<lambda>u.
           io_return (fst dirs)))))))))"

text \<open>The tables a list of events saves, with their paths, and the forecast fetches.\<close>

fun saved_table :: "event \<Rightarrow> (path \<times> frame) list" where
  "saved_table (ToExcel p df) = [(p, df)]"
| "saved_table _ = []"

definition saved_tables :: "event list \<Rightarrow> (path \<times> frame) list" where
  "saved_tables evs = concat (map saved_table evs)"

fun is_forecast_fetch :: "event \<Rightarrow> bool" where
  "is_forecast_fetch (FetchPronostic url) = True"
| "is_forecast_fetch _ = False"

section \<open>Normalization (\<^verbatim>\<open>DataProcessor\<close>)\<close>

text \<open>
  The configuration file of the processor, taken as loaded: the two banner strings of the
  edge case and the output column order. The file system, as the processor reads it: the
  entries of a directory in the order \<^verbatim>\<open>iterdir\<close> yields them, each with the
  answer of \<^verbatim>\<open>is_file\<close>, and the spreadsheet reader with its engine.
\<close>

record tr_config =
  edge_case_rain :: string
  edge_case_temp :: string
  order_col :: "obj list"





subsection \<open>The year of a table\<close>

definition is_digit :: "char \<Rightarrow> bool" where
  "is_digit c = (48 \<le> (of_char c :: nat) \<and> (of_char c :: nat) \<le> 57)"

text \<open>\<^verbatim>\<open>re.search(r'\d{4}', year)\<close>: the leftmost four consecutive digits.\<close>

fun search_4_digits :: "string \<Rightarrow> string option" where
  "search_4_digits [] = None"
| "search_4_digits (c # cs) =
     (if 3 \<le> length cs \<and> list_all is_digit (c # take 3 cs) then Some (c # take 3 cs)
      else search_4_digits cs)"

definition int_of_digits :: "string \<Rightarrow> int" where
  "int_of_digits ds = foldl (\<lambda>a c. 10 * a + (int (of_char c) - 48)) 0 ds"

definition year_int :: "string \<Rightarrow> exn + int" where
  "year_int year =
     (case search_4_digits year of
        None \<Rightarrow> Inl (AttributeError ''group'')
      | Some ds \<Rightarrow> Inr (int_of_digits ds))"

subsection \<open>The steps on one table\<close>

text \<open>
  \<^verbatim>\<open>columns.str.lower().str.strip()\<close>. The accessor exists on an index that holds
  strings: every other label becomes NaN. An index of numbers only has no such accessor;
  what pandas infers for a non-empty index with neither strings nor numbers only is
  left out of the model.
\<close>

definition is_str :: "obj \<Rightarrow> bool" where
  "is_str v = (case v of Str s \<Rightarrow> True | _ \<Rightarrow> False)"

definition is_number :: "obj \<Rightarrow> bool" where
  "is_number v = (case v of IntV i \<Rightarrow> True | Flt x \<Rightarrow> True | NaN \<Rightarrow> True | _ \<Rightarrow> False)"

definition lower_cols :: "obj list \<Rightarrow> exn + obj list" where
  "lower_cols cols =
     (if cols \<noteq> [] \<and> \<not> list_ex is_str cols then
        (if list_all is_number cols
         then Inl (AttributeError ''Can only use .str accessor with string values'')
         else Inl (NotModelled ''str accessor on an index without strings''))
      else Inr (map (\<lambda>c. case c of Str s \<Rightarrow> Str (py_strip (py_lower s)) | _ \<Rightarrow> NaN) cols))"

text \<open>The edge case: the first row becomes the header, \<^verbatim>\<open>ENTIDAD\<close> is renamed, and the
  remaining rows are numbered anew.\<close>

definition promote_header :: "frame \<Rightarrow> exn + frame" where
  "promote_header df =
     (case rows df of
        [] \<Rightarrow> Inl IndexError
      | r # rs \<Rightarrow>
          Inr \<lparr>columns = map (\<lambda>c. if c = Str ''ENTIDAD'' then Str ''estado'' else c) r,
               index = range_index (length rs),
               rows = rs\<rparr>)"

definition make_cols_lower :: "pylib \<Rightarrow> frame \<Rightarrow> frame" where
  "make_cols_lower L df =
     df\<lparr>columns := map (\<lambda>col. Str (unidecode L (py_lower (py_strip (py_str L col)))))
                      (columns df)\<rparr>"

fun make_info_lower :: "pylib \<Rightarrow> frame \<Rightarrow> string list \<Rightarrow> exn + frame" where
  "make_info_lower L df [] = Inr df"
| "make_info_lower L df (col # cols) =
     (case getitem df (Str col) of
        Inl e \<Rightarrow> Inl e
      | Inr s \<Rightarrow>
          (case setitem df (Str col)
                  (fst s, map (\<lambda>v. Str (py_lower (py_strip (unidecode L (py_str L v))))) (snd s)) of
             Inl e \<Rightarrow> Inl e
           | Inr df' \<Rightarrow> make_info_lower L df' cols))"

definition header_map :: "(string \<times> obj) list" where
  "header_map =
     [(''estado'', Str ''estado''), (''anual'', Str ''anual''),
      (''ene'', IntV 1), (''feb'', IntV 2),
      (''mar'', IntV 3), (''abr'', IntV 4),
      (''may'', IntV 5), (''jun'', IntV 6),
      (''jul'', IntV 7), (''ago'', IntV 8),
      (''sep'', IntV 9), (''oct'', IntV 10),
      (''nov'', IntV 11), (''dic'', IntV 12)]"

text \<open>\<^verbatim>\<open>columns.map(dict)\<close>: a label that is no key of the dict becomes NaN.\<close>

definition map_header :: "obj \<Rightarrow> obj" where
  "map_header c =
     (case c of
        Str s \<Rightarrow> (case map_of header_map s of None \<Rightarrow> NaN | Some v \<Rightarrow> v)
      | _ \<Rightarrow> NaN)"

text \<open>\<^verbatim>\<open>drop(columns=[k])\<close>: every column labelled \<open>k\<close> goes; \<^verbatim>\<open>KeyError\<close> when there is
  none.\<close>

definition drop_column :: "frame \<Rightarrow> obj \<Rightarrow> exn + frame" where
  "drop_column df k =
     (if k \<notin> set (columns df) then Inl (KeyError k)
      else Inr (df\<lparr>columns := filter (\<lambda>c. c \<noteq> k) (columns df),
                   rows := map (\<lambda>r. map snd (filter (\<lambda>lv. fst lv \<noteq> k) (zip (columns df) r)))
                             (rows df)\<rparr>))"

text \<open>Boolean indexing: the rows (and their index entries) whose mask is true.\<close>

definition select :: "bool list \<Rightarrow> 'a list \<Rightarrow> 'a list" where
  "select keep xs = map snd (filter fst (zip keep xs))"

definition select_rows :: "bool list \<Rightarrow> frame \<Rightarrow> frame" where
  "select_rows keep df =
     df\<lparr>index := (case index df of
                    Index ls \<Rightarrow> Index (select keep ls)
                  | DatetimeIndex ts \<Rightarrow> DatetimeIndex (select keep ts)),
        rows := select keep (rows df)\<rparr>"

definition drop_nacional :: "frame \<Rightarrow> exn + frame" where
  "drop_nacional df =
     (case getitem df (Str ''estado'') of
        Inl e \<Rightarrow> Inl e
      | Inr s \<Rightarrow> Inr (select_rows (map (\<lambda>v. v \<noteq> Str ''nacional'') (snd s)) df))"

text \<open>\<^verbatim>\<open>df.T\<close>: the rows of the transposed table, one per column of a table with \<open>m\<close>
  columns.\<close>

fun transpose_rows :: "nat \<Rightarrow> 'a list list \<Rightarrow> 'a list list" where
  "transpose_rows m [] = replicate m []"
| "transpose_rows m (r # rs) = map (\<lambda>xc. fst xc # snd xc) (zip r (transpose_rows m rs))"

definition T :: "frame \<Rightarrow> frame" where
  "T df =
     \<lparr>columns = index_labels (index df),
      index = Index (columns df),
      rows = transpose_rows (length (columns df)) (rows df)\<rparr>"

text \<open>
  After the transposition: the first row becomes the header, and
  \<^verbatim>\<open>iloc[1:].reset_index(names="month")\<close> turns the remaining index labels into the
  first column, named \<^verbatim>\<open>month\<close>, which must not be a column already.
\<close>

definition months_as_rows :: "frame \<Rightarrow> exn + frame" where
  "months_as_rows df =
     (case rows df of
        [] \<Rightarrow> Inl IndexError
      | header # rs \<Rightarrow>
          (if Str ''month'' \<in> set header
           then Inl (ValueError ''cannot insert month, already exists'')
           else Inr \<lparr>columns = Str ''month'' # header,
                     index = range_index (length rs),
                     rows = map (\<lambda>lr. fst lr # snd lr) (zip (tl (index_labels (index df))) rs)\<rparr>))"

text \<open>
  \<^verbatim>\<open>pd.to_datetime\<close> on the columns year, month and a day of 1. A month that is a
  string cannot be made a number; a date must lie in the range of a pandas timestamp
  (first-of-month dates from October 1677 to April 2262). What pandas makes of a NaN
  month differs between its versions and is left out of the model.
\<close>

definition assemble :: "obj \<Rightarrow> obj \<Rightarrow> exn + timestamp" where
  "assemble y m =
     (case (y, m) of
        (IntV year, IntV month) \<Rightarrow>
          (if 1 \<le> month \<and> month \<le> 12 \<and>
              (1677 < year \<or> year = 1677 \<and> 10 \<le> month) \<and>
              (year < 2262 \<or> year = 2262 \<and> month \<le> 4)
           then Inr (Stamp year month 1)
           else Inl (ValueError ''cannot assemble the datetimes''))
      | (IntV year, Str s) \<Rightarrow> Inl (ValueError ''cannot assemble the datetimes'')
      | _ \<Rightarrow> Inl (NotModelled ''to_datetime on a missing or non-numeric field''))"

fun assemble_all :: "obj list \<Rightarrow> obj list list \<Rightarrow> exn + timestamp list" where
  "assemble_all cols [] = Inr []"
| "assemble_all cols (r # rs) =
     (case (cells_at cols (Str ''year'') r, cells_at cols (Str ''month'') r) of
        ([y], [m]) \<Rightarrow>
          (case assemble y m of
             Inl e \<Rightarrow> Inl e
           | Inr t \<Rightarrow>
               (case assemble_all cols rs of
                  Inl e \<Rightarrow> Inl e
                | Inr ts \<Rightarrow> Inr (t # ts)))
      | _ \<Rightarrow> Inl (NotModelled ''a row without its cells''))"

definition date_index :: "frame \<Rightarrow> exn + frame" where
  "date_index df =
     (if Str ''year'' \<notin> set (columns df) then Inl (KeyError (Str ''year''))
      else if Str ''month'' \<notin> set (columns df) then Inl (KeyError (Str ''month''))
      else if 1 < count_list (columns df) (Str ''year'') \<or>
              1 < count_list (columns df) (Str ''month'')
        then Inl (ValueError ''cannot assemble with duplicate keys'')
      else (case assemble_all (columns df) (rows df) of
              Inl e \<Rightarrow> Inl e
            | Inr ts \<Rightarrow> Inr (df\<lparr>index := DatetimeIndex ts\<rparr>)))"

subsection \<open>\<^verbatim>\<open>_clean_data\<close>\<close>

text \<open>Sequencing of steps that may raise: the first exception ends the computation.\<close>

definition and_then :: "exn + 'a \<Rightarrow> ('a \<Rightarrow> exn + 'b) \<Rightarrow> exn + 'b" where
  "and_then r f = (case r of Inl e \<Rightarrow> Inl e | Inr a \<Rightarrow> f a)"

text \<open>The body of the loop over the tables: \<open>year\<close> is the key of the table in the dict, its
  file name.\<close>

definition clean_table :: "pylib \<Rightarrow> tr_config \<Rightarrow> string \<Rightarrow> frame \<Rightarrow> exn + frame" where
  "clean_table L cfg year df =
     and_then (lower_cols (columns df)) (\<lambda>lc.
     and_then (year_int year) (\<lambda>y.
     and_then (if Str (edge_case_rain cfg) \<in> set lc \<or> Str (edge_case_temp cfg) \<in> set lc
               then promote_header df else Inr df) (\<lambda>df1.
     and_then (make_info_lower L (make_cols_lower L df1) [''estado'']) (\<lambda>df2.
     and_then (drop_column (df2\<lparr>columns := map map_header (columns df2)\<rparr>) (Str ''anual''))
       (\<lambda>df3.
     and_then (drop_nacional df3) (\<lambda>df4.
     and_then (months_as_rows (T df4)) (\<lambda>df5.
     date_index (setitem_scalar df5 (Str ''year'') (IntV y)))))))))"

fun clean_tables :: "pylib \<Rightarrow> tr_config \<Rightarrow> (string \<times> frame) list \<Rightarrow> exn + frame list" where
  "clean_tables L cfg [] = Inr []"
| "clean_tables L cfg (item # items) =
     and_then (clean_table L cfg (fst item) (snd item)) (\<lambda>df.
     and_then (clean_tables L cfg items) (\<lambda>dfs. Inr (df # dfs)))"

text \<open>
  \<^verbatim>\<open>pd.concat\<close> of tables, one below the other. Tables with the same header are
  stacked as they are. Otherwise the header is the union of the headers in the order of
  first appearance, a missing cell is NaN, and a table with a repeated label cannot be
  reindexed. The index is a \<^verbatim>\<open>DatetimeIndex\<close> when all parts are.
\<close>

definition first_seen :: "'a list \<Rightarrow> 'a list" where
  "first_seen xs = rev (remdups (rev xs))"

definition reindex_row :: "obj list \<Rightarrow> obj list \<Rightarrow> obj list \<Rightarrow> obj list" where
  "reindex_row cols new_cols r =
     map (\<lambda>k. case cells_at cols k r of [v] \<Rightarrow> v | _ \<Rightarrow> NaN) new_cols"

fun stamps :: "index \<Rightarrow> timestamp list" where
  "stamps (DatetimeIndex ts) = ts"
| "stamps (Index ls) = []"

fun is_datetime_index :: "index \<Rightarrow> bool" where
  "is_datetime_index (DatetimeIndex ts) = True"
| "is_datetime_index (Index ls) = False"

definition concat_index :: "index list \<Rightarrow> index" where
  "concat_index ixs =
     (if list_all is_datetime_index ixs then DatetimeIndex (concat (map stamps ixs))
      else Index (concat (map index_labels ixs)))"

definition concat_frames :: "frame list \<Rightarrow> exn + frame" where
  "concat_frames dfs =
     (case dfs of
        [] \<Rightarrow> Inl (ValueError ''No objects to concatenate'')
      | df # rest \<Rightarrow>
          (if list_all (\<lambda>d. columns d = columns df) rest then
             Inr \<lparr>columns = columns df,
                  index = concat_index (map index dfs),
                  rows = concat (map rows dfs)\<rparr>
           else if list_ex (\<lambda>d. \<not> distinct (columns d)) dfs then Inl InvalidIndexError
           else
             (let cols = first_seen (concat (map columns dfs))
              in Inr \<lparr>columns = cols,
                      index = concat_index (map index dfs),
                      rows = concat (map (\<lambda>d. map (reindex_row (columns d) cols) (rows d)) dfs)\<rparr>)))"

definition clean_data :: "pylib \<Rightarrow> tr_config \<Rightarrow> (string \<times> frame) list \<Rightarrow> exn + frame" where
  "clean_data L cfg climate_dict = and_then (clean_tables L cfg climate_dict) concat_frames"

subsection \<open>\<^verbatim>\<open>process_data\<close>\<close>






section \<open>The date filter (\<^verbatim>\<open>filtrar_datos\<close>)\<close>

text \<open>
  The function copies its argument and assigns to the index of the copy, so tables are
  objects in a store here: a reference is a position in the list of all tables made so
  far, a new table goes to the end. \<^verbatim>\<open>pd.to_datetime\<close>, on the labels of an index
  and on a date string, is a parameter.
\<close>

type_synonym ref = nat

type_synonym store = "frame list"

record pd_dates =
  to_datetime_index :: "obj list \<Rightarrow> exn + timestamp list"
  to_datetime_str :: "string \<Rightarrow> exn + timestamp"

text \<open>The truth value of a date argument: \<^verbatim>\<open>None\<close> and the empty string are false.\<close>

definition given :: "string option \<Rightarrow> bool" where
  "given d = (d \<noteq> None \<and> d \<noteq> Some [])"

text \<open>\<^verbatim>\<open>if d: d = pd.to_datetime(d)\<close>. A date string that pandas reads as NaT is left out
  of the model.\<close>

definition convert_date :: "pd_dates \<Rightarrow> string option \<Rightarrow> exn + timestamp option" where
  "convert_date P d =
     (case d of
        None \<Rightarrow> Inr None
      | Some s \<Rightarrow>
          (if s = [] then Inr None
           else (case to_datetime_str P s of
                   Inl e \<Rightarrow> Inl e
                 | Inr NaT \<Rightarrow> Inl (NotModelled ''a date argument that is NaT'')
                 | Inr t \<Rightarrow> Inr (Some t))))"

text \<open>Comparison of an index entry with a date: false on NaT.\<close>

definition stamp_le :: "timestamp \<Rightarrow> timestamp \<Rightarrow> bool" where
  "stamp_le a b =
     (case (a, b) of
        (Stamp y m d, Stamp y' m' d') \<Rightarrow> (y, m, d) \<le> (y', m', d')
      | _ \<Rightarrow> False)"

definition filtrar_datos ::
  "pd_dates \<Rightarrow> store \<Rightarrow> ref \<Rightarrow> string option \<Rightarrow> string option \<Rightarrow> (exn + ref) \<times> store" where
  "filtrar_datos P s df start_date end_date =
     (if \<not> df < length s then (Inl (NotModelled ''no such table''), s)
      else
        (let clima_df = length s;
             s1 = s @ [s ! df]
         in case (if is_datetime_index (index (s1 ! clima_df)) then Inr s1
                  else (case to_datetime_index P (index_labels (index (s1 ! clima_df))) of
                          Inl e \<Rightarrow> Inl e
                        | Inr ts \<Rightarrow>
                            Inr (s1[clima_df := (s1 ! clima_df)\<lparr>index := DatetimeIndex ts\<rparr>]))) of
              Inl e \<Rightarrow> (Inl e, s1)
            | Inr s2 \<Rightarrow>
                (case convert_date P start_date of
                   Inl e \<Rightarrow> (Inl e, s2)
                 | Inr start \<Rightarrow>
                     (case convert_date P end_date of
                        Inl e \<Rightarrow> (Inl e, s2)
                      | Inr end_d \<Rightarrow>
                          (let t = s2 ! clima_df;
                               ix = stamps (index t)
                           in case (start, end_d) of
                                (Some a, Some b) \<Rightarrow>
                                  (Inr (length s2),
                                   s2 @ [select_rows (map (\<lambda>x. stamp_le a x \<and> stamp_le x b) ix) t])
                              | (Some a, None) \<Rightarrow>
                                  (Inr (length s2),
                                   s2 @ [select_rows (map (\<lambda>x. stamp_le a x) ix) t])
                              | (None, Some b) \<Rightarrow>
                                  (Inr (length s2),
                                   s2 @ [select_rows (map (\<lambda>x. stamp_le x b) ix) t])
                              | (None, None) \<Rightarrow> (Inr clima_df, s2))))))"

section \<open>Example tables\<close>

text \<open>A table of the latest year with two regions and one month, and a forecast table for
  the same two rows.\<close>

definition example_target :: frame where
  "example_target =
     \<lparr>columns = [Str ''estado'', Str ''ene''],
      index = range_index 2,
      rows = [[Str ''SONORA'', IntV 10], [Str ''SINALOA'', IntV 20]]\<rparr>"

definition example_forecast :: frame where
  "example_forecast =
     \<lparr>columns = [Str ''estado'', Str ''pronostico (mm)''],
      index = range_index 2,
      rows = [[Str ''Sonora'', IntV 7], [Str ''Sinaloa'', IntV 9]]\<rparr>"

text \<open>A world in June 2024 whose bulletin is the table above, whose archive is empty and
  where no forecast is published; and a configuration.\<close>

definition example_world :: world where
  "example_world =
     \<lparr>datetime_now = (2024, 6),
      path_cwd = Path True [''home''],
      read_pdf = (\<lambda>url. Inr [example_target]),
      requests_get = (\<lambda>url. Inr ''PK''),
      zip_infolist = (\<lambda>body. Inr []),
      download_extract_pronostic = (\<lambda>url. Inl (HTTPError ''404''))\<rparr>"

definition example_config :: dl_config where
  "example_config =
     \<lparr>rain_url = ''http://smn/rain.zip'',
      temp_url = ''http://smn/temp.zip'',
      new_info_url = ''http://smn/new/'',
      pronostic_url = ''http://smn/pron/''\<rparr>"

text \<open>The table of the normalization example: the regions Sonora and Nacional, the twelve
  months and the annual total, with given cells.\<close>

definition month_headers :: "string list" where
  "month_headers =
     [''ene'', ''feb'', ''mar'', ''abr'', ''may'', ''jun'',
      ''jul'', ''ago'', ''sep'', ''oct'', ''nov'', ''dic'']"

definition year_table :: "obj list \<Rightarrow> obj \<Rightarrow> obj list \<Rightarrow> obj \<Rightarrow> frame" where
  "year_table sonora sonora_anual nacional nacional_anual =
     \<lparr>columns = map Str (''estado'' # month_headers @ [''anual'']),
      index = range_index 2,
      rows = [Str ''Sonora'' # sonora @ [sonora_anual],
              Str ''Nacional'' # nacional @ [nacional_anual]]\<rparr>"

text \<open>The libraries and the configuration of the examples, a small table of one month, and
  three directories: one with the tables of 2023 and 2024, one with two tables whose
  file names both carry 2024, and the first again seen from a file system that differs
  elsewhere.\<close>

definition example_pylib :: pylib where
  "example_pylib = \<lparr>unidecode_char = (\<lambda>c. ''?''), str_other = (\<lambda>v. ''?'')\<rparr>"

definition example_tr_config :: tr_config where
  "example_tr_config =
     \<lparr>edge_case_rain = ''precipitacion a nivel nacional y por entidad federativa'',
      edge_case_temp = ''temperatura media promedio a nivel nacional y por entidad federativa'',
      order_col = [Str ''sonora'']\<rparr>"





text \<open>A table indexed by date strings, and a \<^verbatim>\<open>to_datetime\<close> that reads them.\<close>

definition string_dated :: frame where
  "string_dated =
     \<lparr>columns = [Str ''sonora''],
      index = Index [Str ''2024-01-01''],
      rows = [[IntV 3]]\<rparr>"

definition dated :: frame where
  "dated =
     \<lparr>columns = [Str ''sonora''],
      index = DatetimeIndex [Stamp 2024 1 1, Stamp 2024 2 1],
      rows = [[IntV 3], [IntV 4]]\<rparr>"

definition example_dates :: pd_dates where
  "example_dates =
     \<lparr>to_datetime_index = (\<lambda>ls. if ls = [Str ''2024-01-01''] then Inr [Stamp 2024 1 1]
                                else Inl (ValueError ''unknown datetime string format'')),
      to_datetime_str = (\<lambda>s. if s = ''2024-02-01'' then Inr (Stamp 2024 2 1)
                              else Inl (ValueError ''unknown datetime string format''))\<rparr>"

chapter \<open>Properties\<close>

section \<open>Properties of the retrieval loop\<close>

lemma url_2025_1:
  "generate_pronostic_url b 2025 1 t = b @ ''01-EFM-Pronostico-de-Enero-2025-'' @ t @ ''.zip''"
  by (simp add: generate_pronostic_url_def month_prefix_def month_names_def fmt_get_def
      str_int_def str_nat.simps digit_char_def)

lemma url_2024_12:
  "generate_pronostic_url b 2024 12 t = b @ ''12-DEF-Pronostico-de-Diciembre-2024-'' @ t @ ''.zip''"
  by (simp add: generate_pronostic_url_def month_prefix_def month_names_def fmt_get_def
      str_int_def str_nat.simps digit_char_def)

lemma step_back_2025_1: "step_back (2025, 1) = (2024, 12)"
  by (simp add: step_back_def)

text \<open>
  Claim C5. One backward step yields \<open>(year, month - 1)\<close> when \<open>month > 1\<close> and
  \<open>(year - 1, 12)\<close> when \<open>month = 1\<close>; from (2025, 1) it yields (2024, 12); and from any
  period with \<open>month \<ge> 1\<close> the step moves exactly one month back in linear time, so never
  forward.
\<close>

theorem step_back_one_month:
  "(1 < month \<longrightarrow> step_back (year, month) = (year, month - 1)) \<and>
   (month = 1 \<longrightarrow> step_back (year, month) = (year - 1, 12)) \<and>
   step_back (2025, 1) = (2024, 12) \<and>
   (1 \<le> month \<longrightarrow> month_index (step_back (year, month)) = month_index (year, month) - 1 \<and>
      month_index (step_back (year, month)) < month_index (year, month))"
  by (simp add: step_back_def month_index_def)

theorem step_back_one_month_witness:
  "step_back (2025, 7) = (2025, 6) \<and> step_back (2025, 1) = (2024, 12) \<and>
   month_index (step_back (2025, 1)) < month_index (2025, 1)"
  using step_back_one_month [of 7 2025] step_back_one_month [of 1 2025]
  by (simp add: month_index_def)

text \<open>
  Claim C4. Starting at (2025, 1) with the window of 2 attempts: when the retrieval fails at
  (2025, 1) and succeeds at (2024, 12), the loop returns the (2024, 12) result after
  exactly the two attempts (2025, 1), (2024, 12); when it fails at both, the loop makes
  exactly these two attempts and raises an exception whose message names the window
  size.
\<close>

theorem retrieval_window_two:
  assumes first_fails: "dl (generate_pronostic_url b 2025 1 t) = Inl e1"
  shows "(dl (generate_pronostic_url b 2024 12 t) = Inr r \<longrightarrow>
            get_latest_valid_pronostic dl b (2025, 1) t =
              (Inr r, [generate_pronostic_url b 2025 1 t, generate_pronostic_url b 2024 12 t])) \<and>
         (dl (generate_pronostic_url b 2024 12 t) = Inl e2 \<longrightarrow>
            get_latest_valid_pronostic dl b (2025, 1) t =
              (Inl (PyException (''No valid pronostic file found in the last ''
                      @ str_nat max_attempts @ '' months.'')),
               [generate_pronostic_url b 2025 1 t, generate_pronostic_url b 2024 12 t])) \<and>
         length (snd (get_latest_valid_pronostic dl b (2025, 1) t)) = 2"
proof -
  let ?u1 = "generate_pronostic_url b 2025 1 t"
  let ?u2 = "generate_pronostic_url b 2024 12 t"
  have unfold1: "get_latest_valid_pronostic dl b (2025, 1) t =
      retrieval_loop dl b t (2024, 12) 1 2 [?u1]"
    unfolding get_latest_valid_pronostic_def max_attempts_def
    by (subst retrieval_loop.simps) (simp add: first_fails step_back_2025_1)
  have stop: "retrieval_loop dl b t p (Suc (Suc 0)) 2 tried =
      (Inl (PyException ''No valid pronostic file found in the last 2 months.''), tried)"
    for p tried
    by (subst retrieval_loop.simps) simp
  have second: "retrieval_loop dl b t (2024, 12) 1 2 [?u1] =
      (case dl ?u2 of
         Inr dfs \<Rightarrow> (Inr dfs, [?u1, ?u2])
       | Inl e \<Rightarrow> (Inl (PyException ''No valid pronostic file found in the last 2 months.''),
                   [?u1, ?u2]))"
    by (subst retrieval_loop.simps) (simp add: stop split: sum.split)
  have msg: "''No valid pronostic file found in the last '' @ str_nat max_attempts @ '' months.''
      = ''No valid pronostic file found in the last 2 months.''"
    by (simp add: max_attempts_def str_nat.simps digit_char_def)
  show ?thesis
    unfolding unfold1 second msg by (cases "dl ?u2") simp_all
qed

theorem retrieval_window_two_witness:
  "get_latest_valid_pronostic
     (\<lambda>u. if u = ''http://smn/12-DEF-Pronostico-de-Diciembre-2024-Lluvia.zip''
          then Inr (7::nat) else Inl (HTTPError ''404''))
     ''http://smn/'' (2025, 1) ''Lluvia'' =
     (Inr 7, [''http://smn/01-EFM-Pronostico-de-Enero-2025-Lluvia.zip'',
              ''http://smn/12-DEF-Pronostico-de-Diciembre-2024-Lluvia.zip'']) \<and>
   get_latest_valid_pronostic (\<lambda>u. (Inl (HTTPError ''404'') :: exn + nat))
     ''http://smn/'' (2025, 1) ''Lluvia'' =
     (Inl (PyException ''No valid pronostic file found in the last 2 months.''),
      [''http://smn/01-EFM-Pronostico-de-Enero-2025-Lluvia.zip'',
       ''http://smn/12-DEF-Pronostico-de-Diciembre-2024-Lluvia.zip''])"
  using
    retrieval_window_two [of
      "\<lambda>u. if u = ''http://smn/12-DEF-Pronostico-de-Diciembre-2024-Lluvia.zip''
           then Inr (7::nat) else Inl (HTTPError ''404'')"
      "''http://smn/''" "''Lluvia''" "HTTPError ''404''" 7 "HTTPError ''404''"]
    retrieval_window_two [of "\<lambda>u. (Inl (HTTPError ''404'') :: exn + nat)"
      "''http://smn/''" "''Lluvia''" "HTTPError ''404''" 7 "HTTPError ''404''"]
  by (simp add: url_2025_1 url_2024_12 max_attempts_def str_nat.simps digit_char_def)

section \<open>Properties of the archive extraction\<close>

lemma common2_prefix1: "prefix (common2 xs ys) xs"
  by (induction xs ys rule: common2.induct) auto

lemma common2_prefix2: "prefix (common2 xs ys) ys"
  by (induction xs ys rule: common2.induct) auto

lemma common2_greatest: "prefix p xs \<Longrightarrow> prefix p ys \<Longrightarrow> prefix p (common2 xs ys)"
proof (induction xs ys arbitrary: p rule: common2.induct)
  case (1 x xs y ys)
  then show ?case by (cases p) auto
qed simp_all

lemma foldl_common2_prefix_acc: "prefix (foldl common2 a ns) a"
proof (induction ns arbitrary: a)
  case Nil
  then show ?case by simp
next
  case (Cons n ns)
  have "prefix (foldl common2 (common2 a n) ns) (common2 a n)" by (rule Cons.IH)
  then show ?case using common2_prefix1 [of a n] by (auto intro: prefix_order.trans)
qed

lemma foldl_common2_prefix_elem: "n \<in> set ns \<Longrightarrow> prefix (foldl common2 a ns) n"
proof (induction ns arbitrary: a)
  case Nil
  then show ?case by simp
next
  case (Cons k ns)
  show ?case
  proof (cases "n = k")
    case True
    have "prefix (foldl common2 (common2 a k) ns) (common2 a k)"
      by (rule foldl_common2_prefix_acc)
    then show ?thesis
      using True common2_prefix2 [of a k] by (auto intro: prefix_order.trans)
  next
    case False
    then show ?thesis using Cons by auto
  qed
qed

lemma foldl_common2_greatest:
  "prefix p a \<Longrightarrow> \<forall>n\<in>set ns. prefix p n \<Longrightarrow> prefix p (foldl common2 a ns)"
  by (induction ns arbitrary: a) (auto intro: common2_greatest)

text \<open>The model of \<^verbatim>\<open>os.path.commonprefix\<close> is the longest common prefix.\<close>

lemma commonprefix_prefix: "n \<in> set m \<Longrightarrow> prefix (commonprefix m) n"
  by (cases m) (auto simp: commonprefix_def foldl_common2_prefix_acc foldl_common2_prefix_elem)

lemma commonprefix_greatest:
  "m \<noteq> [] \<Longrightarrow> \<forall>n\<in>set m. prefix p n \<Longrightarrow> prefix p (commonprefix m)"
  by (cases m) (auto simp: commonprefix_def intro: foldl_common2_greatest)

lemma py_split_not_Nil: "py_split sep s \<noteq> []"
  by (induction s) (auto split: list.splits)

lemma hd_py_split: "hd (py_split sep s) = takeWhile (\<lambda>c. c \<noteq> sep) s"
  using py_split_not_Nil [of sep] by (induction s) (auto split: list.splits)

lemma takeWhile_first_sep:
  "sep \<notin> set ys \<Longrightarrow> takeWhile (\<lambda>c. c \<noteq> sep) (ys @ sep # zs) = ys"
  by (induction ys) auto

lemma truncate_prefix: "prefix (truncate_to_last_separator cp) cp"
proof -
  have "suffix (dropWhile (\<lambda>c. c \<noteq> CHR ''/'') (rev cp)) (rev cp)"
    by (rule suffix_dropWhile)
  then show ?thesis
    unfolding truncate_to_last_separator_def by (metis rev_rev_ident suffix_to_prefix)
qed

lemma truncate_endswith: "endswith_slash cp \<Longrightarrow> truncate_to_last_separator cp = cp"
  unfolding truncate_to_last_separator_def endswith_slash_def
  by (cases cp rule: rev_cases) auto

lemma truncate_no_separator:
  "CHR ''/'' \<notin> set cp \<Longrightarrow> truncate_to_last_separator cp = []"
  unfolding truncate_to_last_separator_def
  by (auto simp: dropWhile_eq_Nil_conv)

lemma first_part_prefix_truncate:
  "CHR ''/'' \<in> set cp \<Longrightarrow>
   prefix (takeWhile (\<lambda>c. c \<noteq> CHR ''/'') cp @ ''/'') (truncate_to_last_separator cp)"
proof (induction cp rule: rev_induct)
  case Nil
  then show ?case by simp
next
  case (snoc x xs)
  show ?case
  proof (cases "x = CHR ''/''")
    case True
    note x_sep = this
    have tr: "truncate_to_last_separator (xs @ [x]) = xs @ [x]"
      using True by (simp add: truncate_endswith endswith_slash_def)
    have "prefix (takeWhile (\<lambda>c. c \<noteq> CHR ''/'') (xs @ [x]) @ ''/'') (xs @ [x])"
    proof (cases "CHR ''/'' \<in> set xs")
      case True
      then obtain ys zs where xs: "xs = ys @ CHR ''/'' # zs" "CHR ''/'' \<notin> set ys"
        by (meson split_list_first)
      then show ?thesis
        using takeWhile_first_sep [of "CHR ''/''" ys "zs @ [x]"] by simp
    next
      case False
      then show ?thesis
        using x_sep takeWhile_first_sep [of "CHR ''/''" xs "[]"] by simp
    qed
    then show ?thesis using tr by simp
  next
    case False
    then have inxs: "CHR ''/'' \<in> set xs" using snoc.prems by auto
    have tr: "truncate_to_last_separator (xs @ [x]) = truncate_to_last_separator xs"
      using False by (simp add: truncate_to_last_separator_def)
    have tw: "takeWhile (\<lambda>c. c \<noteq> CHR ''/'') (xs @ [x]) = takeWhile (\<lambda>c. c \<noteq> CHR ''/'') xs"
      using inxs takeWhile_first_sep [of "CHR ''/''"] by (metis append_Cons append_assoc split_list_first)
    show ?thesis using snoc.IH [OF inxs] tr tw by simp
  qed
qed

lemma truncate_append_separator:
  "truncate_to_last_separator (xs @ CHR ''/'' # zs) = xs @ CHR ''/'' # truncate_to_last_separator zs"
proof (cases "CHR ''/'' \<in> set zs")
  case True
  then have "dropWhile (\<lambda>c. c \<noteq> CHR ''/'') (rev zs @ CHR ''/'' # rev xs) =
      dropWhile (\<lambda>c. c \<noteq> CHR ''/'') (rev zs) @ CHR ''/'' # rev xs"
    by (intro dropWhile_append1 [of "CHR ''/''"]) auto
  then show ?thesis by (simp add: truncate_to_last_separator_def)
next
  case False
  then have "dropWhile (\<lambda>c. c \<noteq> CHR ''/'') (rev zs @ CHR ''/'' # rev xs) =
      dropWhile (\<lambda>c. c \<noteq> CHR ''/'') (CHR ''/'' # rev xs)"
    by (intro dropWhile_append2) auto
  then show ?thesis using False
    by (simp add: truncate_to_last_separator_def truncate_no_separator [unfolded truncate_to_last_separator_def])
qed

lemma truncate_Nil_iff: "truncate_to_last_separator zs = [] \<longleftrightarrow> CHR ''/'' \<notin> set zs"
  by (auto simp: truncate_to_last_separator_def dropWhile_eq_Nil_conv)

lemma common_prefix_first_part:
  assumes "cp = commonprefix all_names" "cp \<noteq> []" "\<not> endswith_slash cp"
  shows "common_prefix all_names = takeWhile (\<lambda>c. c \<noteq> CHR ''/'') cp @ ''/''"
  using assms by (simp add: common_prefix_def Let_def hd_py_split)

lemma common_prefix_unchanged:
  assumes "cp = commonprefix all_names" "cp = [] \<or> endswith_slash cp"
  shows "common_prefix all_names = cp"
  using assms by (auto simp: common_prefix_def Let_def)

lemma first_part_eq_truncate_iff:
  assumes "CHR ''/'' \<in> set cp"
  shows "takeWhile (\<lambda>c. c \<noteq> CHR ''/'') cp @ ''/'' = truncate_to_last_separator cp
           \<longleftrightarrow> length (filter (\<lambda>c. c = CHR ''/'') cp) = 1"
proof -
  from assms obtain ys zs where cp: "cp = ys @ CHR ''/'' # zs" and ys: "CHR ''/'' \<notin> set ys"
    by (meson split_list_first)
  have f: "filter (\<lambda>c. c = CHR ''/'') ys = []"
    using ys by (auto simp: filter_empty_conv)
  have "length (filter (\<lambda>c. c = CHR ''/'') zs) = 0 \<longleftrightarrow> CHR ''/'' \<notin> set zs"
    by (auto simp: filter_empty_conv)
  then show ?thesis
    unfolding cp truncate_append_separator
    using takeWhile_first_sep [OF ys, of zs] f truncate_Nil_iff [of zs] by auto
qed

text \<open>
  Claim C1, as the code has it. With \<open>cp\<close> the longest common prefix of all entry names:
  when \<open>cp\<close> is empty nothing is stripped from any name; when \<open>cp\<close> ends with the
  separator the stripped prefix is \<open>cp\<close>, which is its truncation to the last separator,
  and every entry is extracted under the name the specification gives; when \<open>cp\<close> holds a
  separator without ending with one, the stripped prefix is the first component of
  \<open>cp\<close> with the separator (the shared top-level directory), a prefix of the truncation
  to the last separator and equal to it exactly when \<open>cp\<close> holds a single separator, and
  every entry loses exactly that prefix; when \<open>cp\<close> holds no separator, every name that
  does not continue \<open>cp\<close> with a separator is unchanged.
\<close>

theorem stripped_prefix_cases:
  assumes cp: "cp = commonprefix all_names"
  shows "(cp = [] \<longrightarrow> member_name (common_prefix all_names) n = n) \<and>
         (endswith_slash cp \<longrightarrow>
            common_prefix all_names = truncate_to_last_separator cp \<and>
            (n \<in> set all_names \<longrightarrow>
               member_name (common_prefix all_names) n = spec_member_name all_names n)) \<and>
         (cp \<noteq> [] \<and> \<not> endswith_slash cp \<and> CHR ''/'' \<in> set cp \<longrightarrow>
            common_prefix all_names = takeWhile (\<lambda>c. c \<noteq> CHR ''/'') cp @ ''/'' \<and>
            prefix (common_prefix all_names) (truncate_to_last_separator cp) \<and>
            (common_prefix all_names = truncate_to_last_separator cp
               \<longleftrightarrow> length (filter (\<lambda>c. c = CHR ''/'') cp) = 1) \<and>
            (n \<in> set all_names \<longrightarrow>
               member_name (common_prefix all_names) n =
                 drop (length (common_prefix all_names)) n)) \<and>
         (CHR ''/'' \<notin> set cp \<and> \<not> prefix (cp @ ''/'') n \<longrightarrow>
            member_name (common_prefix all_names) n = n)"
proof (intro conjI impI)
  assume "cp = []"
  then show "member_name (common_prefix all_names) n = n"
    using common_prefix_unchanged [OF cp] by (simp add: member_name_def)
next
  assume e: "endswith_slash cp"
  show "common_prefix all_names = truncate_to_last_separator cp"
    using common_prefix_unchanged [OF cp] e by (simp add: truncate_endswith)
next
  assume e: "endswith_slash cp" and n: "n \<in> set all_names"
  have c: "common_prefix all_names = cp"
    using common_prefix_unchanged [OF cp] e by simp
  have "prefix cp n" using commonprefix_prefix [OF n] cp by simp
  moreover have "cp \<noteq> []" using e by (simp add: endswith_slash_def)
  ultimately show "member_name (common_prefix all_names) n = spec_member_name all_names n"
    using c cp e by (simp add: member_name_def spec_member_name_def truncate_endswith)
next
  assume a: "cp \<noteq> [] \<and> \<not> endswith_slash cp \<and> CHR ''/'' \<in> set cp"
  show c: "common_prefix all_names = takeWhile (\<lambda>c. c \<noteq> CHR ''/'') cp @ ''/''"
    using common_prefix_first_part [OF cp] a by simp
  show p: "prefix (common_prefix all_names) (truncate_to_last_separator cp)"
    using first_part_prefix_truncate [of cp] a c by simp
  show "common_prefix all_names = truncate_to_last_separator cp
          \<longleftrightarrow> length (filter (\<lambda>c. c = CHR ''/'') cp) = 1"
    using first_part_eq_truncate_iff [of cp] a c by simp
  assume n: "n \<in> set all_names"
  have "prefix cp n" using commonprefix_prefix [OF n] cp by simp
  then have "prefix (common_prefix all_names) n"
    using p truncate_prefix [of cp] by (meson prefix_order.trans)
  moreover have "common_prefix all_names \<noteq> []" using c by simp
  ultimately show "member_name (common_prefix all_names) n =
      drop (length (common_prefix all_names)) n"
    by (simp add: member_name_def)
next
  assume a: "CHR ''/'' \<notin> set cp \<and> \<not> prefix (cp @ ''/'') n"
  show "member_name (common_prefix all_names) n = n"
  proof (cases "cp = []")
    case True
    then show ?thesis using common_prefix_unchanged [OF cp] by (simp add: member_name_def)
  next
    case False
    moreover have "\<not> endswith_slash cp"
      using a False last_in_set [of cp] by (metis endswith_slash_def)
    ultimately have "common_prefix all_names = takeWhile (\<lambda>c. c \<noteq> CHR ''/'') cp @ ''/''"
      using common_prefix_first_part [OF cp] by simp
    moreover have "takeWhile (\<lambda>c. c \<noteq> CHR ''/'') cp = cp"
      using a by (auto simp: takeWhile_eq_all_conv)
    ultimately show ?thesis using a by (simp add: member_name_def)
  qed
qed

lemma commonprefix_examples:
  "commonprefix [''a.csv'', ''b.csv''] = []"
  "commonprefix [''data/a.csv'', ''data/b.csv''] = ''data/''"
  "commonprefix [''a/b/cx'', ''a/b/cy''] = ''a/b/c''"
  "commonprefix [''file1.csv'', ''file2.csv''] = ''file''"
  by (simp_all add: commonprefix_def)

theorem stripped_prefix_cases_witness:
  "member_name (common_prefix [''a.csv'', ''b.csv'']) ''a.csv'' = ''a.csv'' \<and>
   common_prefix [''data/a.csv'', ''data/b.csv''] = ''data/'' \<and>
   member_name (common_prefix [''data/a.csv'', ''data/b.csv'']) ''data/a.csv''
     = spec_member_name [''data/a.csv'', ''data/b.csv''] ''data/a.csv'' \<and>
   common_prefix [''a/b/cx'', ''a/b/cy''] = ''a/'' \<and>
   member_name (common_prefix [''a/b/cx'', ''a/b/cy'']) ''a/b/cx'' = ''b/cx'' \<and>
   member_name (common_prefix [''file1.csv'', ''file2.csv'']) ''file1.csv'' = ''file1.csv''"
  using
    stripped_prefix_cases [of "[]" "[''a.csv'', ''b.csv'']" "''a.csv''"]
    stripped_prefix_cases [of "''data/''" "[''data/a.csv'', ''data/b.csv'']" "''data/a.csv''"]
    stripped_prefix_cases [of "''a/b/c''" "[''a/b/cx'', ''a/b/cy'']" "''a/b/cx''"]
    stripped_prefix_cases [of "''file''" "[''file1.csv'', ''file2.csv'']" "''file1.csv''"]
  by (simp add: commonprefix_examples endswith_slash_def truncate_to_last_separator_def
      member_name_def spec_member_name_def)

text \<open>
  The claim as the specification words it fails on an archive whose entries share two
  directory levels and the start of a file name: the code strips the first level only,
  truncation to the last separator would strip both.
\<close>

theorem stripped_prefix_counterexample:
  "member_name (common_prefix [''a/b/cx'', ''a/b/cy'']) ''a/b/cx'' = ''b/cx'' \<and>
   spec_member_name [''a/b/cx'', ''a/b/cy''] ''a/b/cx'' = ''cx'' \<and>
   common_prefix [''a/b/cx'', ''a/b/cy''] = ''a/'' \<and>
   truncate_to_last_separator (commonprefix [''a/b/cx'', ''a/b/cy'']) = ''a/b/''"
  by (simp add: member_name_def common_prefix_def spec_member_name_def commonprefix_def
      endswith_slash_def truncate_to_last_separator_def)

text \<open>
  Outside the cases of the theorem: when the common prefix holds no separator, an entry
  that continues it with a separator loses that much, although the entries share no
  directory.
\<close>

lemma shared_name_start_stripped:
  "map (member_name (common_prefix [''data/a.csv'', ''data2/b.csv'']))
     [''data/a.csv'', ''data2/b.csv''] = [''a.csv'', ''data2/b.csv'']"
  by (simp add: member_name_def common_prefix_def commonprefix_def endswith_slash_def)














section \<open>Properties of the forecast merge\<close>

lemma cells_at_appended_same:
  "length cols = length r \<Longrightarrow> k \<notin> set cols \<Longrightarrow> cells_at (cols @ [k]) k (r @ [v]) = [v]"
  by (induction cols r rule: list_induct2) (auto simp: cells_at_def)

lemma cells_at_appended_other:
  "length cols = length r \<Longrightarrow> l \<noteq> k \<Longrightarrow> cells_at (cols @ [k]) l (r @ [v]) = cells_at cols l r"
  by (induction cols r rule: list_induct2) (auto simp: cells_at_def)

lemma cells_at_replaced_same:
  "length cols = length r \<Longrightarrow>
   cells_at cols k (map (\<lambda>lx. if fst lx = k then v else snd lx) (zip cols r)) =
     replicate (count_list cols k) v"
  by (induction cols r rule: list_induct2) (auto simp: cells_at_def)

lemma cells_at_replaced_other:
  "length cols = length r \<Longrightarrow> l \<noteq> k \<Longrightarrow>
   cells_at cols l (map (\<lambda>lx. if fst lx = k then v else snd lx) (zip cols r)) = cells_at cols l r"
  by (induction cols r rule: list_induct2) (auto simp: cells_at_def)

lemma count_list_one: "k \<in> set cols \<Longrightarrow> count_list cols k \<le> 1 \<Longrightarrow> count_list cols k = 1"
  using count_list_0_iff [of cols k] by (cases "count_list cols k") auto

lemma set_column_columns:
  "columns (set_column df k vs) = (if k \<in> set (columns df) then columns df else columns df @ [k])"
  by (simp add: set_column_def)

lemma set_column_index: "index (set_column df k vs) = index df"
  by (simp add: set_column_def)

lemma rows_replaced_same:
  "length rws = length vs \<Longrightarrow> list_all (\<lambda>r. length r = length cols) rws \<Longrightarrow>
   count_list cols k = 1 \<Longrightarrow>
   map (cells_at cols k)
     (map (\<lambda>rv. map (\<lambda>lx. if fst lx = k then snd rv else snd lx) (zip cols (fst rv)))
        (zip rws vs)) = map (\<lambda>v. [v]) vs"
  by (induction rws vs rule: list_induct2) (auto simp: cells_at_replaced_same)

lemma rows_replaced_other:
  "length rws = length vs \<Longrightarrow> list_all (\<lambda>r. length r = length cols) rws \<Longrightarrow> l \<noteq> k \<Longrightarrow>
   map (cells_at cols l)
     (map (\<lambda>rv. map (\<lambda>lx. if fst lx = k then snd rv else snd lx) (zip cols (fst rv)))
        (zip rws vs)) = map (cells_at cols l) rws"
  by (induction rws vs rule: list_induct2) (auto simp: cells_at_replaced_other)

lemma rows_appended_same:
  "length rws = length vs \<Longrightarrow> list_all (\<lambda>r. length r = length cols) rws \<Longrightarrow> k \<notin> set cols \<Longrightarrow>
   map (cells_at (cols @ [k]) k) (map (\<lambda>rv. fst rv @ [snd rv]) (zip rws vs)) = map (\<lambda>v. [v]) vs"
  by (induction rws vs rule: list_induct2) (auto simp: cells_at_appended_same)

lemma rows_appended_other:
  "length rws = length vs \<Longrightarrow> list_all (\<lambda>r. length r = length cols) rws \<Longrightarrow> l \<noteq> k \<Longrightarrow>
   map (cells_at (cols @ [k]) l) (map (\<lambda>rv. fst rv @ [snd rv]) (zip rws vs)) =
     map (cells_at cols l) rws"
  by (induction rws vs rule: list_induct2) (auto simp: cells_at_appended_other)

lemma set_column_cells_same:
  assumes "list_all (\<lambda>r. length r = length (columns df)) (rows df)"
    and "length vs = length (rows df)" and "count_list (columns df) k \<le> 1"
  shows "map (cells_at (columns (set_column df k vs)) k) (rows (set_column df k vs)) =
           map (\<lambda>v. [v]) vs"
proof (cases "k \<in> set (columns df)")
  case True
  then have "count_list (columns df) k = 1" using assms(3) by (rule count_list_one)
  then show ?thesis
    using True assms(1,2) rows_replaced_same [of "rows df" vs "columns df" k]
    by (simp add: set_column_def)
next
  case False
  then show ?thesis
    using assms(1,2) rows_appended_same [of "rows df" vs "columns df" k]
    by (simp add: set_column_def)
qed

lemma set_column_cells_other:
  assumes "list_all (\<lambda>r. length r = length (columns df)) (rows df)"
    and "length vs = length (rows df)" and "l \<noteq> k"
  shows "map (cells_at (columns (set_column df k vs)) l) (rows (set_column df k vs)) =
           map (cells_at (columns df) l) (rows df)"
proof (cases "k \<in> set (columns df)")
  case True
  then show ?thesis
    using assms rows_replaced_other [of "rows df" vs "columns df" l k]
    by (simp add: set_column_def)
next
  case False
  then show ?thesis
    using assms rows_appended_other [of "rows df" vs "columns df" l k]
    by (simp add: set_column_def)
qed

text \<open>
  Claim C3, as the code has it. For an entry whose month name is not a key of
  \<^term>\<open>month_map\<close> the merge does not fail on that account: \<^verbatim>\<open>month_map.get\<close> yields
  \<^verbatim>\<open>None\<close>, and when the forecast table has its column \<^verbatim>\<open>pronostico (mm)\<close> and the
  same row labels as the target table, the values are written into the target under the
  column labelled \<^verbatim>\<open>None\<close> (replacing that column or appended last); every other column
  and the index are unchanged.
\<close>

theorem unmapped_month_written_under_None:
  assumes name: "py_nth (py_split (CHR ''_'') key) 2 = Inr name"
    and unmapped: "map_of month_map name = None"
    and col: "getitem sub (Str ''pronostico (mm)'') = Inr (ix, vs)"
    and same: "index_labels ix = index_labels (index target)"
    and wf: "wf_frame target"
    and len: "length vs = length (rows target)"
    and one: "count_list (columns target) PNone \<le> 1"
  shows "\<exists>df'. merge_entry target (key, sub) = Inr df' \<and>
           columns df' = (if PNone \<in> set (columns target) then columns target
                          else columns target @ [PNone]) \<and>
           index df' = index target \<and>
           map (cells_at (columns df') PNone) (rows df') = map (\<lambda>v. [v]) vs \<and>
           (\<forall>l. l \<noteq> PNone \<longrightarrow>
              map (cells_at (columns df') l) (rows df') =
                map (cells_at (columns target) l) (rows target))"
proof -
  have rows_ok: "list_all (\<lambda>r. length r = length (columns target)) (rows target)"
    using wf by (simp add: wf_frame_def)
  have "index_labels (index target) = [] \<Longrightarrow> vs = []"
    using wf len by (simp add: wf_frame_def)
  then have valid: "ensure_valid_index target (ix, vs) = target"
    by (auto simp: ensure_valid_index_def)
  have m: "merge_entry target (key, sub) = Inr (set_column target PNone vs)"
    using name unmapped col same one valid
    by (simp add: merge_entry_def month_map_get_def setitem_def reindex_for_setitem_def)
  show ?thesis
    unfolding m
    using set_column_cells_same [OF rows_ok len one]
      set_column_cells_other [OF rows_ok len]
    by (simp add: set_column_columns set_column_index)
qed

lemma first_attempt_succeeds:
  "dl (generate_pronostic_url b (fst now) (snd now) t) = Inr r \<Longrightarrow>
   get_latest_valid_pronostic dl b now t =
     (Inr r, [generate_pronostic_url b (fst now) (snd now) t])"
  unfolding get_latest_valid_pronostic_def max_attempts_def
  by (subst retrieval_loop.simps) simp

lemma example_forecast_column:
  "getitem example_forecast (Str ''pronostico (mm)'') = Inr (range_index 2, [IntV 7, IntV 9])"
  by (simp add: getitem_def example_forecast_def cells_at_def)

lemma setiembre_unmapped:
  "py_nth (py_split (CHR ''_'') ''lluvia_2025_setiembre'') 2 = Inr ''setiembre''"
  "map_of month_map ''setiembre'' = None"
  by (simp_all add: py_nth_def month_map_def)

theorem unmapped_month_written_under_None_witness:
  "\<exists>df'. merge_entry example_target (''lluvia_2025_setiembre'', example_forecast) = Inr df' \<and>
         columns df' = [Str ''estado'', Str ''ene'', PNone] \<and>
         index df' = range_index 2 \<and>
         map (cells_at (columns df') PNone) (rows df') = [[IntV 7], [IntV 9]]"
proof -
  have same: "index_labels (range_index 2) = index_labels (index example_target)"
    by (simp add: example_target_def)
  have wf: "wf_frame example_target"
    by (simp add: example_target_def wf_frame_def range_index_def index_labels_def)
  have len: "length [IntV 7, IntV 9] = length (rows example_target)"
    by (simp add: example_target_def)
  have one: "count_list (columns example_target) PNone \<le> 1"
    by (simp add: example_target_def)
  from unmapped_month_written_under_None
    [OF setiembre_unmapped example_forecast_column same wf len one]
  obtain df' where
    "merge_entry example_target (''lluvia_2025_setiembre'', example_forecast) = Inr df'"
    "columns df' = (if PNone \<in> set (columns example_target) then columns example_target
                    else columns example_target @ [PNone])"
    "index df' = index example_target"
    "map (cells_at (columns df') PNone) (rows df') = map (\<lambda>v. [v]) [IntV 7, IntV 9]"
    by blast
  then show ?thesis by (simp add: example_target_def)
qed

text \<open>
  The claim as the specification words it fails: for the dataset key
  \<^verbatim>\<open>lluvia_2025_setiembre\<close>, whose month name is not in the table, \<^verbatim>\<open>add_pronostico\<close>
  returns normally and the forecast values stand in the table of 2025 under the column
  labelled \<^verbatim>\<open>None\<close>.
\<close>

theorem unmapped_month_counterexample:
  "map_of month_map ''setiembre'' = None \<and>
   add_pronostico (\<lambda>u. Inr [(''lluvia_2025_setiembre'', example_forecast)])
       ''http://smn/'' (2025, 9) [(2025, example_target)] =
     (Inr [(2025,
            \<lparr>columns = [Str ''estado'', Str ''ene'', PNone],
             index = range_index 2,
             rows = [[Str ''SONORA'', IntV 10, IntV 7], [Str ''SINALOA'', IntV 20, IntV 9]]\<rparr>)],
      [''http://smn/09-SON-Pronostico-de-Septiembre-2025-Lluvia.zip''])"
proof -
  have url: "generate_pronostic_url ''http://smn/'' 2025 9 ''Lluvia'' =
      ''http://smn/09-SON-Pronostico-de-Septiembre-2025-Lluvia.zip''"
    by (simp add: generate_pronostic_url_def month_prefix_def month_names_def fmt_get_def
        str_int_def str_nat.simps digit_char_def)
  have fetch: "get_latest_valid_pronostic
      (\<lambda>u. Inr [(''lluvia_2025_setiembre'', example_forecast)]) ''http://smn/'' (2025, 9) ''Lluvia''
      = (Inr [(''lluvia_2025_setiembre'', example_forecast)],
         [''http://smn/09-SON-Pronostico-de-Septiembre-2025-Lluvia.zip''])"
    using first_attempt_succeeds
      [of "\<lambda>u. Inr [(''lluvia_2025_setiembre'', example_forecast)]" "''http://smn/''"
        "(2025, 9)" "''Lluvia''" "[(''lluvia_2025_setiembre'', example_forecast)]"]
    by (simp add: url)
  have merge: "merge_entry example_target (''lluvia_2025_setiembre'', example_forecast) =
      Inr \<lparr>columns = [Str ''estado'', Str ''ene'', PNone],
           index = range_index 2,
           rows = [[Str ''SONORA'', IntV 10, IntV 7], [Str ''SINALOA'', IntV 20, IntV 9]]\<rparr>"
    by (simp add: merge_entry_def py_nth_def month_map_def month_map_get_def
        example_forecast_column setitem_def ensure_valid_index_def reindex_for_setitem_def
        set_column_def example_target_def range_index_def index_labels_def)
  show ?thesis
    by (simp add: add_pronostico_def fetch merge setiembre_unmapped)
qed

section \<open>Properties of the download run\<close>

lemma saved_tables_append: "saved_tables (xs @ ys) = saved_tables xs @ saved_tables ys"
  by (simp add: saved_tables_def)

lemma saved_tables_Cons: "saved_tables (ev # evs) = saved_table ev @ saved_tables evs"
  by (simp add: saved_tables_def)

lemma saved_tables_Nil: "saved_tables [] = []"
  by (simp add: saved_tables_def)

lemma extract_member_quiet:
  "saved_tables (extract_member dest_dir cp member) = [] \<and>
   list_all (\<lambda>ev. \<not> is_forecast_fetch ev) (extract_member dest_dir cp member)"
  by (simp add: extract_member_def Let_def saved_tables_def)

lemma extract_zip_file_quiet:
  "saved_tables (extract_zip_file zip_ref dest_dir) = [] \<and>
   list_all (\<lambda>ev. \<not> is_forecast_fetch ev) (extract_zip_file zip_ref dest_dir)"
proof -
  have "saved_tables (concat (map (extract_member dest_dir cp) ms)) = [] \<and>
        list_all (\<lambda>ev. \<not> is_forecast_fetch ev) (concat (map (extract_member dest_dir cp) ms))"
    for cp ms
    using extract_member_quiet [of dest_dir cp]
    by (induction ms) (simp_all add: saved_tables_append saved_tables_Nil)
  then show ?thesis by (simp add: extract_zip_file_def Let_def)
qed

lemma read_pdf_table_events: "snd (read_pdf_table w url) = [ReadPdf url]"
  by (simp add: read_pdf_table_def split: sum.splits list.splits)

lemma read_years_quiet:
  "saved_tables (snd (read_years w base years)) = [] \<and>
   list_all (\<lambda>ev. \<not> is_forecast_fetch ev) (snd (read_years w base years))"
  by (induction years)
    (auto simp: io_return_def io_bind_def read_pdf_table_events saved_tables_append
      saved_tables_Cons saved_tables_Nil split: sum.splits)

text \<open>What a successful reading of the bulletins returns: one table per year from 2024 on,
  each the table \<^verbatim>\<open>read_pdf_table\<close> returned for the PDF of that year.\<close>

lemma read_years_result:
  "fst (read_years w base years) = Inr nid \<Longrightarrow>
   map fst nid = years \<and>
   list_all (\<lambda>item. fst (read_pdf_table w (base @ ''/'' @ str_int (fst item) @ ''.pdf''))
                      = Inr (snd item)) nid"
proof (induction years arbitrary: nid)
  case Nil
  then show ?case by (simp add: io_return_def)
next
  case (Cons year years)
  from Cons.prems obtain df rest where
    df: "fst (read_pdf_table w (base @ ''/'' @ str_int year @ ''.pdf'')) = Inr df"
    and rest: "fst (read_years w base years) = Inr rest"
    and nid: "nid = (year, df) # rest"
    by (auto simp: io_bind_def io_return_def split: sum.splits)
  show ?case using Cons.IH [OF rest] df nid by simp
qed

lemma get_datatype_config_temp:
  assumes "py_lower data_type \<in> {''temperatura'', ''temp'', ''temperature''}"
  shows "get_datatype_config cfg data_type =
           Inr \<lparr>zip_url = temp_url cfg, pdf_folder = ''TMED'',
                default_folder = ''Temperatura'', filename = ''Tmed.xlsx''\<rparr>"
  using assms by (auto simp: get_datatype_config_def Let_def)

lemma get_datatype_values_temp:
  assumes "py_lower data_type \<in> {''temperatura'', ''temp'', ''temperature''}"
  shows "get_datatype_values w cfg data_type =
           io_bind (read_years w (new_info_url cfg @ ''TMED'') [2024..fst (datetime_now w)])
             (\<lambda>nid. io_return (temp_url cfg, nid, ''Temperatura'', ''Tmed.xlsx''))"
  by (simp add: get_datatype_values_def get_datatype_config_temp [OF assms] io_bind_def Let_def
      split: sum.splits)

lemma saved_tables_save_new_info:
  "saved_tables (snd (save_new_info nid directory fname)) =
     map (\<lambda>item. (joinpath directory (str_int (fst item) @ fname), snd item)) nid"
  by (induction nid) (simp_all add: save_new_info_def saved_tables_def)

lemma save_new_info_no_fetch:
  "list_all (\<lambda>ev. \<not> is_forecast_fetch ev) (snd (save_new_info nid directory fname))"
  by (induction nid) (simp_all add: save_new_info_def)

text \<open>
  Claim C8. For a temperature data kind (\<^verbatim>\<open>temperatura\<close>, \<^verbatim>\<open>temp\<close> or
  \<^verbatim>\<open>temperature\<close>, in any case of letters) the run is the same with and without
  \<^verbatim>\<open>include_pronostico\<close>, no forecast is fetched, and when the run succeeds the tables
  it saves are exactly the tables read from the PDF bulletins, one per year from 2024 to
  the current year, each as \<^verbatim>\<open>read_pdf_table\<close> returned it, saved under the year
  followed by \<^verbatim>\<open>Tmed.xlsx\<close> in the destination directory.
\<close>

theorem temperature_run_without_forecast:
  assumes temp: "py_lower data_type \<in> {''temperatura'', ''temp'', ''temperature''}"
  shows "download_conagua w cfg file_location data_type True =
           download_conagua w cfg file_location data_type False \<and>
         list_all (\<lambda>ev. \<not> is_forecast_fetch ev)
           (snd (download_conagua w cfg file_location data_type include_pronostico)) \<and>
         (fst (download_conagua w cfg file_location data_type include_pronostico) = Inr dest_dir
          \<longrightarrow> (\<exists>nid.
                fst (read_years w (new_info_url cfg @ ''TMED'') [2024..fst (datetime_now w)])
                  = Inr nid \<and>
                map fst nid = [2024..fst (datetime_now w)] \<and>
                list_all (\<lambda>item. fst (read_pdf_table w
                             (new_info_url cfg @ ''TMED'' @ ''/'' @ str_int (fst item) @ ''.pdf''))
                           = Inr (snd item)) nid \<and>
                saved_tables
                  (snd (download_conagua w cfg file_location data_type include_pronostico)) =
                  map (\<lambda>item. (joinpath dest_dir (str_int (fst item) @ ''Tmed.xlsx''), snd item))
                    nid))"
proof -
  let ?ry = "read_years w (new_info_url cfg @ ''TMED'') [2024..fst (datetime_now w)]"
  have same: "download_conagua w cfg file_location data_type True =
      download_conagua w cfg file_location data_type False"
    by (simp add: download_conagua_def get_datatype_values_temp [OF temp] io_bind_def
        io_return_def Let_def split: sum.splits)
  have quiet: "list_all (\<lambda>ev. \<not> is_forecast_fetch ev)
      (snd (download_conagua w cfg file_location data_type include_pronostico))"
    using read_years_quiet [of w "new_info_url cfg @ ''TMED''" "[2024..fst (datetime_now w)]"]
      extract_zip_file_quiet save_new_info_no_fetch
    by (auto simp: download_conagua_def get_datatype_values_temp [OF temp] io_bind_def
        io_return_def Let_def set_destination_directory_def download_zip_file_def
        extract_zip_file_io_def split: sum.splits)
  have saved: "\<exists>nid. fst ?ry = Inr nid \<and>
      saved_tables (snd (download_conagua w cfg file_location data_type include_pronostico)) =
        map (\<lambda>item. (joinpath dest_dir (str_int (fst item) @ ''Tmed.xlsx''), snd item)) nid"
    if ok: "fst (download_conagua w cfg file_location data_type include_pronostico) = Inr dest_dir"
    using ok read_years_quiet [of w "new_info_url cfg @ ''TMED''" "[2024..fst (datetime_now w)]"]
      extract_zip_file_quiet
    by (auto simp: download_conagua_def get_datatype_values_temp [OF temp] io_bind_def
        io_return_def Let_def set_destination_directory_def download_zip_file_def
        extract_zip_file_io_def saved_tables_append saved_tables_Cons saved_tables_Nil
        saved_tables_save_new_info split: sum.splits)
  show ?thesis
    using same quiet saved read_years_result [of w "new_info_url cfg @ ''TMED''"]
    by auto
qed

lemma lower_Temperatura: "py_lower ''Temperatura'' = ''temperatura''"
  by code_simp

lemma example_temperature_run:
  "download_conagua example_world example_config None ''Temperatura'' True =
     (Inr (Path True [''home'', ''Temperatura'']),
      [ReadPdf ''http://smn/new/TMED/2024.pdf'',
       Mkdir (Path True [''home'', ''Temperatura'']),
       HttpGet ''http://smn/temp.zip'',
       WriteFile (Path True [''home'', ''Temperatura'', ''temp.zip'']) ''PK'',
       ToExcel (Path True [''home'', ''Temperatura'', ''2024Tmed.xlsx'']) example_target,
       Unlink (Path True [''home'', ''Temperatura'', ''temp.zip''])])"
proof -
  have years: "[2024..fst (datetime_now example_world)] = [2024]"
    by (simp add: example_world_def upto.simps)
  have cols: "strip_lower_all (columns example_target) = Inr (columns example_target)"
    by code_simp
  have pdf: "read_pdf_table example_world url = (Inr example_target, [ReadPdf url])" for url
    by (simp add: read_pdf_table_def example_world_def cols)
  have name: "str_int 2024 = ''2024''"
    by (simp add: str_int_def str_nat.simps digit_char_def)
  have vals: "get_datatype_values example_world example_config ''Temperatura'' =
      (Inr (''http://smn/temp.zip'', [(2024, example_target)], ''Temperatura'', ''Tmed.xlsx''),
       [ReadPdf ''http://smn/new/TMED/2024.pdf''])"
    by (simp add: get_datatype_values_temp lower_Temperatura years pdf name io_bind_def
        io_return_def example_config_def)
  show ?thesis
    unfolding download_conagua_def vals
    by (simp add: io_bind_def io_return_def Let_def
        set_destination_directory_def download_zip_file_def extract_zip_file_io_def
        save_new_info_def name example_world_def extract_zip_file_def namelist_def
        joinpath_def path_of_def)
qed

theorem temperature_run_without_forecast_witness:
  "py_lower ''Temperatura'' = ''temperatura'' \<and>
   download_conagua example_world example_config None ''Temperatura'' True =
     download_conagua example_world example_config None ''Temperatura'' False \<and>
   fst (download_conagua example_world example_config None ''Temperatura'' True) =
     Inr (Path True [''home'', ''Temperatura'']) \<and>
   saved_tables (snd (download_conagua example_world example_config None ''Temperatura'' True)) =
     [(Path True [''home'', ''Temperatura'', ''2024Tmed.xlsx''], example_target)]"
proof -
  have temp: "py_lower ''Temperatura'' \<in> {''temperatura'', ''temp'', ''temperature''}"
    by (simp add: lower_Temperatura)
  have saved: "saved_tables
      (snd (download_conagua example_world example_config None ''Temperatura'' True)) =
      [(Path True [''home'', ''Temperatura'', ''2024Tmed.xlsx''], example_target)]"
    by (simp add: example_temperature_run saved_tables_def)
  have same: "download_conagua example_world example_config None ''Temperatura'' True =
      download_conagua example_world example_config None ''Temperatura'' False"
    using temperature_run_without_forecast [OF temp] by blast
  have res: "fst (download_conagua example_world example_config None ''Temperatura'' True) =
      Inr (Path True [''home'', ''Temperatura''])"
    by (simp add: example_temperature_run)
  show ?thesis
    by (rule conjI [OF lower_Temperatura conjI [OF same conjI [OF res saved]]])
qed

section \<open>Properties of the normalization\<close>

lemma and_then_simps:
  "and_then (Inl e) f = Inl e"
  "and_then (Inr a) f = f a"
  by (simp_all add: and_then_def)

lemma unidecode_ascii: "list_all (\<lambda>c. (of_char c :: nat) < 128) s \<Longrightarrow> unidecode L s = s"
  by (induction s) (auto simp: unidecode_def)

text \<open>The headers of a year table are canonical already; the two region names become
  lower case.\<close>

lemma header_strip_lower:
  "py_strip (py_lower ''estado'') = ''estado''"
  "py_strip (py_lower ''ene'') = ''ene''"
  "py_strip (py_lower ''feb'') = ''feb''"
  "py_strip (py_lower ''mar'') = ''mar''"
  "py_strip (py_lower ''abr'') = ''abr''"
  "py_strip (py_lower ''may'') = ''may''"
  "py_strip (py_lower ''jun'') = ''jun''"
  "py_strip (py_lower ''jul'') = ''jul''"
  "py_strip (py_lower ''ago'') = ''ago''"
  "py_strip (py_lower ''sep'') = ''sep''"
  "py_strip (py_lower ''oct'') = ''oct''"
  "py_strip (py_lower ''nov'') = ''nov''"
  "py_strip (py_lower ''dic'') = ''dic''"
  "py_strip (py_lower ''anual'') = ''anual''"
  by code_simp+

lemma header_lower_strip:
  "py_lower (py_strip ''estado'') = ''estado''"
  "py_lower (py_strip ''ene'') = ''ene''"
  "py_lower (py_strip ''feb'') = ''feb''"
  "py_lower (py_strip ''mar'') = ''mar''"
  "py_lower (py_strip ''abr'') = ''abr''"
  "py_lower (py_strip ''may'') = ''may''"
  "py_lower (py_strip ''jun'') = ''jun''"
  "py_lower (py_strip ''jul'') = ''jul''"
  "py_lower (py_strip ''ago'') = ''ago''"
  "py_lower (py_strip ''sep'') = ''sep''"
  "py_lower (py_strip ''oct'') = ''oct''"
  "py_lower (py_strip ''nov'') = ''nov''"
  "py_lower (py_strip ''dic'') = ''dic''"
  "py_lower (py_strip ''anual'') = ''anual''"
  by code_simp+

lemma header_unidecode:
  "unidecode L ''estado'' = ''estado''"
  "unidecode L ''ene'' = ''ene''"
  "unidecode L ''feb'' = ''feb''"
  "unidecode L ''mar'' = ''mar''"
  "unidecode L ''abr'' = ''abr''"
  "unidecode L ''may'' = ''may''"
  "unidecode L ''jun'' = ''jun''"
  "unidecode L ''jul'' = ''jul''"
  "unidecode L ''ago'' = ''ago''"
  "unidecode L ''sep'' = ''sep''"
  "unidecode L ''oct'' = ''oct''"
  "unidecode L ''nov'' = ''nov''"
  "unidecode L ''dic'' = ''dic''"
  "unidecode L ''anual'' = ''anual''"
  by (rule unidecode_ascii, code_simp)+

lemma region_canonical:
  "py_lower (py_strip (unidecode L ''Sonora'')) = ''sonora''"
  "py_lower (py_strip (unidecode L ''Nacional'')) = ''nacional''"
proof -
  have "unidecode L ''Sonora'' = ''Sonora''" "unidecode L ''Nacional'' = ''Nacional''"
    by (rule unidecode_ascii, code_simp)+
  moreover have "py_lower (py_strip ''Sonora'') = ''sonora''"
    "py_lower (py_strip ''Nacional'') = ''nacional''"
    by code_simp+
  ultimately show "py_lower (py_strip (unidecode L ''Sonora'')) = ''sonora''"
    "py_lower (py_strip (unidecode L ''Nacional'')) = ''nacional''"
    by simp_all
qed

text \<open>
  Claim C7. Normalizing the single table of a year \<open>y\<close> (the year in its file name, in
  the range of timestamps) whose rows are the regions Sonora and Nacional and whose
  columns are \<^verbatim>\<open>estado\<close>, the twelve months and \<^verbatim>\<open>anual\<close>, when neither banner
  string of the configuration is one of these headers, removes the Nacional row and the
  \<^verbatim>\<open>anual\<close> column and gives exactly twelve rows, indexed by the first day of each
  month of \<open>y\<close> in order, with the columns \<^verbatim>\<open>month\<close>, \<^verbatim>\<open>sonora\<close> and \<^verbatim>\<open>year\<close>:
  \<^verbatim>\<open>sonora\<close> is the single region column, and it holds the cells of Sonora.
\<close>

theorem year_table_normalized:
  assumes year: "year_int name = Inr y" and lo: "1677 < y" and hi: "y < 2262"
    and rain: "edge_case_rain cfg \<notin> set (''estado'' # month_headers @ [''anual''])"
    and temp: "edge_case_temp cfg \<notin> set (''estado'' # month_headers @ [''anual''])"
  shows "clean_data L cfg
           [(name, year_table [v1, v2, v3, v4, v5, v6, v7, v8, v9, v10, v11, v12] va
                     [n1, n2, n3, n4, n5, n6, n7, n8, n9, n10, n11, n12] na)] =
         Inr \<lparr>columns = [Str ''month'', Str ''sonora'', Str ''year''],
              index = DatetimeIndex
                [Stamp y 1 1, Stamp y 2 1, Stamp y 3 1, Stamp y 4 1, Stamp y 5 1, Stamp y 6 1,
                 Stamp y 7 1, Stamp y 8 1, Stamp y 9 1, Stamp y 10 1, Stamp y 11 1,
                 Stamp y 12 1],
              rows = [[IntV 1, v1, IntV y], [IntV 2, v2, IntV y], [IntV 3, v3, IntV y],
                      [IntV 4, v4, IntV y], [IntV 5, v5, IntV y], [IntV 6, v6, IntV y],
                      [IntV 7, v7, IntV y], [IntV 8, v8, IntV y], [IntV 9, v9, IntV y],
                      [IntV 10, v10, IntV y], [IntV 11, v11, IntV y],
                      [IntV 12, v12, IntV y]]\<rparr>"
proof -
  let ?t = "year_table [v1, v2, v3, v4, v5, v6, v7, v8, v9, v10, v11, v12] va
              [n1, n2, n3, n4, n5, n6, n7, n8, n9, n10, n11, n12] na"
  let ?months = "[IntV 1, IntV 2, IntV 3, IntV 4, IntV 5, IntV 6, IntV 7, IntV 8, IntV 9,
                  IntV 10, IntV 11, IntV 12]"
  have lc: "lower_cols (columns ?t) = Inr (map Str (''estado'' # month_headers @ [''anual'']))"
    by (simp add: year_table_def lower_cols_def is_str_def month_headers_def
        header_strip_lower)
  have no_edge: "\<not> (Str (edge_case_rain cfg) \<in> set (map Str (''estado'' # month_headers @ [''anual''])) \<or>
      Str (edge_case_temp cfg) \<in> set (map Str (''estado'' # month_headers @ [''anual''])))"
    using rain temp by auto
  have cols: "make_cols_lower L ?t = ?t"
    by (simp add: year_table_def month_headers_def make_cols_lower_def py_str_def
        header_lower_strip header_unidecode)
  have info: "make_info_lower L ?t [''estado''] =
      Inr (?t\<lparr>rows := [Str ''sonora'' # [v1, v2, v3, v4, v5, v6, v7, v8, v9, v10, v11, v12] @ [va],
                       Str ''nacional'' # [n1, n2, n3, n4, n5, n6, n7, n8, n9, n10, n11, n12] @ [na]]\<rparr>)"
    by (simp add: year_table_def month_headers_def getitem_def cells_at_def setitem_def
        ensure_valid_index_def reindex_for_setitem_def set_column_def py_str_def
        region_canonical range_index_def index_labels_def)
  have dropped: "drop_column
      (?t\<lparr>rows := [Str ''sonora'' # [v1, v2, v3, v4, v5, v6, v7, v8, v9, v10, v11, v12] @ [va],
                    Str ''nacional'' # [n1, n2, n3, n4, n5, n6, n7, n8, n9, n10, n11, n12] @ [na]],
           columns := map map_header (columns
             (?t\<lparr>rows := [Str ''sonora'' # [v1, v2, v3, v4, v5, v6, v7, v8, v9, v10, v11, v12] @ [va],
                           Str ''nacional'' # [n1, n2, n3, n4, n5, n6, n7, n8, n9, n10, n11, n12] @ [na]]\<rparr>))\<rparr>)
        (Str ''anual'') =
      Inr \<lparr>columns = Str ''estado'' # ?months,
           index = range_index 2,
           rows = [[Str ''sonora'', v1, v2, v3, v4, v5, v6, v7, v8, v9, v10, v11, v12],
                   [Str ''nacional'', n1, n2, n3, n4, n5, n6, n7, n8, n9, n10, n11, n12]]\<rparr>"
    by (simp add: year_table_def month_headers_def map_header_def header_map_def
        drop_column_def)
  have regional: "drop_nacional
      \<lparr>columns = Str ''estado'' # ?months,
       index = range_index 2,
       rows = [[Str ''sonora'', v1, v2, v3, v4, v5, v6, v7, v8, v9, v10, v11, v12],
               [Str ''nacional'', n1, n2, n3, n4, n5, n6, n7, n8, n9, n10, n11, n12]]\<rparr> =
      Inr \<lparr>columns = Str ''estado'' # ?months,
           index = Index [IntV 0],
           rows = [[Str ''sonora'', v1, v2, v3, v4, v5, v6, v7, v8, v9, v10, v11, v12]]\<rparr>"
    by (simp add: drop_nacional_def getitem_def cells_at_def select_rows_def select_def
        range_index_def upt_rec)
  have turned: "months_as_rows (T
      \<lparr>columns = Str ''estado'' # ?months,
       index = Index [IntV 0],
       rows = [[Str ''sonora'', v1, v2, v3, v4, v5, v6, v7, v8, v9, v10, v11, v12]]\<rparr>) =
      Inr \<lparr>columns = [Str ''month'', Str ''sonora''],
           index = range_index 12,
           rows = [[IntV 1, v1], [IntV 2, v2], [IntV 3, v3], [IntV 4, v4], [IntV 5, v5],
                   [IntV 6, v6], [IntV 7, v7], [IntV 8, v8], [IntV 9, v9], [IntV 10, v10],
                   [IntV 11, v11], [IntV 12, v12]]\<rparr>"
    by (simp add: months_as_rows_def T_def index_labels_def eval_nat_numeral)
  have dated: "date_index (setitem_scalar
      \<lparr>columns = [Str ''month'', Str ''sonora''],
       index = range_index 12,
       rows = [[IntV 1, v1], [IntV 2, v2], [IntV 3, v3], [IntV 4, v4], [IntV 5, v5],
               [IntV 6, v6], [IntV 7, v7], [IntV 8, v8], [IntV 9, v9], [IntV 10, v10],
               [IntV 11, v11], [IntV 12, v12]]\<rparr> (Str ''year'') (IntV y)) =
      Inr \<lparr>columns = [Str ''month'', Str ''sonora'', Str ''year''],
           index = DatetimeIndex
             [Stamp y 1 1, Stamp y 2 1, Stamp y 3 1, Stamp y 4 1, Stamp y 5 1, Stamp y 6 1,
              Stamp y 7 1, Stamp y 8 1, Stamp y 9 1, Stamp y 10 1, Stamp y 11 1,
              Stamp y 12 1],
           rows = [[IntV 1, v1, IntV y], [IntV 2, v2, IntV y], [IntV 3, v3, IntV y],
                   [IntV 4, v4, IntV y], [IntV 5, v5, IntV y], [IntV 6, v6, IntV y],
                   [IntV 7, v7, IntV y], [IntV 8, v8, IntV y], [IntV 9, v9, IntV y],
                   [IntV 10, v10, IntV y], [IntV 11, v11, IntV y],
                   [IntV 12, v12, IntV y]]\<rparr>"
    using lo hi
    by (simp add: date_index_def setitem_scalar_def set_column_def cells_at_def assemble_def)
  have one: "clean_table L cfg name ?t =
      Inr \<lparr>columns = [Str ''month'', Str ''sonora'', Str ''year''],
           index = DatetimeIndex
             [Stamp y 1 1, Stamp y 2 1, Stamp y 3 1, Stamp y 4 1, Stamp y 5 1, Stamp y 6 1,
              Stamp y 7 1, Stamp y 8 1, Stamp y 9 1, Stamp y 10 1, Stamp y 11 1,
              Stamp y 12 1],
           rows = [[IntV 1, v1, IntV y], [IntV 2, v2, IntV y], [IntV 3, v3, IntV y],
                   [IntV 4, v4, IntV y], [IntV 5, v5, IntV y], [IntV 6, v6, IntV y],
                   [IntV 7, v7, IntV y], [IntV 8, v8, IntV y], [IntV 9, v9, IntV y],
                   [IntV 10, v10, IntV y], [IntV 11, v11, IntV y],
                   [IntV 12, v12, IntV y]]\<rparr>"
    unfolding clean_table_def lc and_then_simps year
    using no_edge
    by (simp only: if_False cols info and_then_simps frame.simps dropped regional turned dated)
  show ?thesis
    by (simp add: clean_data_def one and_then_simps clean_tables.simps concat_frames_def
        concat_index_def)
qed

theorem year_table_normalized_witness:
  "year_int ''2024Precip.xlsx'' = Inr 2024 \<and>
   clean_data example_pylib example_tr_config
     [(''2024Precip.xlsx'',
       year_table [IntV 1, IntV 2, IntV 3, IntV 4, IntV 5, IntV 6, IntV 7, IntV 8, IntV 9,
                   IntV 10, IntV 11, IntV 12] (IntV 78)
         [NaN, NaN, NaN, NaN, NaN, NaN, NaN, NaN, NaN, NaN, NaN, NaN] NaN)] =
     Inr \<lparr>columns = [Str ''month'', Str ''sonora'', Str ''year''],
          index = DatetimeIndex
            [Stamp 2024 1 1, Stamp 2024 2 1, Stamp 2024 3 1, Stamp 2024 4 1, Stamp 2024 5 1,
             Stamp 2024 6 1, Stamp 2024 7 1, Stamp 2024 8 1, Stamp 2024 9 1, Stamp 2024 10 1,
             Stamp 2024 11 1, Stamp 2024 12 1],
          rows = [[IntV 1, IntV 1, IntV 2024], [IntV 2, IntV 2, IntV 2024],
                  [IntV 3, IntV 3, IntV 2024], [IntV 4, IntV 4, IntV 2024],
                  [IntV 5, IntV 5, IntV 2024], [IntV 6, IntV 6, IntV 2024],
                  [IntV 7, IntV 7, IntV 2024], [IntV 8, IntV 8, IntV 2024],
                  [IntV 9, IntV 9, IntV 2024], [IntV 10, IntV 10, IntV 2024],
                  [IntV 11, IntV 11, IntV 2024], [IntV 12, IntV 12, IntV 2024]]\<rparr>"
proof -
  have year: "year_int ''2024Precip.xlsx'' = Inr 2024"
    by code_simp
  have rain: "edge_case_rain example_tr_config \<notin> set (''estado'' # month_headers @ [''anual''])"
    and temp: "edge_case_temp example_tr_config \<notin> set (''estado'' # month_headers @ [''anual''])"
    by (simp_all add: example_tr_config_def month_headers_def)
  show ?thesis
    using year year_table_normalized [OF year _ _ rain temp, of example_pylib]
    by simp
qed




























section \<open>Properties of the date filter\<close>

lemma filtrar_datos_store:
  assumes "df < length s"
  shows "\<exists>new. snd (filtrar_datos P s df start_date end_date) = s @ new"
proof -
  have upd: "(s @ [x])[length s := y] = s @ [y]" for x y :: frame
    by simp
  show ?thesis
    using assms
    by (auto simp: filtrar_datos_def Let_def upd
        split: sum.splits option.splits prod.splits if_splits)
qed

text \<open>
  Claim C10, as the code has it. For every store, table and pair of date arguments the
  call leaves the argument table, and every other table there was, as it found them:
  it works on a copy. Called with neither date on a table whose index is a
  \<^verbatim>\<open>DatetimeIndex\<close> it returns a new table equal to the argument. (An index of another
  kind is converted in the copy, or the conversion raises.)
\<close>

theorem filtrar_datos_copy:
  assumes valid: "df < length s"
  shows "snd (filtrar_datos P s df start_date end_date) ! df = s ! df \<and>
         take (length s) (snd (filtrar_datos P s df start_date end_date)) = s \<and>
         (is_datetime_index (index (s ! df)) \<and> \<not> given start_date \<and> \<not> given end_date \<longrightarrow>
            fst (filtrar_datos P s df start_date end_date) = Inr (length s) \<and>
            snd (filtrar_datos P s df start_date end_date) ! length s = s ! df)"
proof -
  from filtrar_datos_store [OF valid] obtain new where
    new: "snd (filtrar_datos P s df start_date end_date) = s @ new" by blast
  have frame: "snd (filtrar_datos P s df start_date end_date) ! df = s ! df"
    "take (length s) (snd (filtrar_datos P s df start_date end_date)) = s"
    using valid by (simp_all add: new nth_append)
  have same: "fst (filtrar_datos P s df start_date end_date) = Inr (length s) \<and>
      snd (filtrar_datos P s df start_date end_date) ! length s = s ! df"
    if "is_datetime_index (index (s ! df))" "\<not> given start_date" "\<not> given end_date"
    using that valid
    by (auto simp: filtrar_datos_def Let_def given_def convert_date_def)
  show ?thesis using frame same by blast
qed

theorem filtrar_datos_copy_witness:
  "is_datetime_index (index ([dated] ! 0)) \<and>
   fst (filtrar_datos example_dates [dated] 0 None None) = Inr 1 \<and>
   snd (filtrar_datos example_dates [dated] 0 None None) ! 1 = dated \<and>
   snd (filtrar_datos example_dates [dated] 0 None None) ! 0 = dated \<and>
   snd (filtrar_datos example_dates [dated] 0 (Some ''2024-02-01'') None) ! 0 = dated"
proof -
  have dt: "is_datetime_index (index ([dated] ! 0))"
    by (simp add: dated_def)
  show ?thesis
    using dt filtrar_datos_copy [of 0 "[dated]" example_dates None None]
      filtrar_datos_copy [of 0 "[dated]" example_dates "Some ''2024-02-01''" None]
    by (simp add: given_def)
qed

lemma filtrar_datos_from_february:
  "filtrar_datos example_dates [dated] 0 (Some ''2024-02-01'') None =
     (Inr 2, [dated, dated,
              \<lparr>columns = [Str ''sonora''],
               index = DatetimeIndex [Stamp 2024 2 1],
               rows = [[IntV 4]]\<rparr>])"
  by (simp add: filtrar_datos_def Let_def dated_def example_dates_def convert_date_def
      select_rows_def select_def stamp_le_def)

text \<open>
  The claim as the specification words it fails in its second half: called with neither
  date on a table indexed by date strings, the function returns a table whose index is
  a \<^verbatim>\<open>DatetimeIndex\<close>, which the index of the argument is not.
\<close>

theorem filtrar_datos_counterexample:
  "filtrar_datos example_dates [string_dated] 0 None None =
     (Inr 1, [string_dated,
              \<lparr>columns = [Str ''sonora''],
               index = DatetimeIndex [Stamp 2024 1 1],
               rows = [[IntV 3]]\<rparr>]) \<and>
   \<lparr>columns = [Str ''sonora''], index = DatetimeIndex [Stamp 2024 1 1], rows = [[IntV 3]]\<rparr>
     \<noteq> string_dated"
  by (simp add: filtrar_datos_def Let_def string_dated_def example_dates_def convert_date_def
      index_labels_def)

end
